theory Spec2Isabelle
  imports Complex_Main
begin

section \<open>Synthetic acceleration data for the structural-health-monitoring workflow\<close>

text \<open>
  A shallow embedding of \<^verbatim>\<open>examples/generate_sample_data.py\<close>: the signal synthesizer
  \<^verbatim>\<open>generate_synthetic_acceleration_data\<close> and the dataset assembler
  \<^verbatim>\<open>generate_sample_dataset\<close>.

  Conventions of the embedding.
  \<^item> Python numbers are \<open>int\<close> and \<open>real\<close>: a float is read as the real it denotes, so
    rounding of float arithmetic is not part of the model.
  \<^item> Everything the script reads from its environment is a field of the record \<open>world\<close>:
    the numpy random source, the wall clock and the files written so far.
  \<^item> An exception is the \<open>Inl\<close> branch of a sum.
\<close>

subsection \<open>Exceptions\<close>

datatype py_error = ValueError | ZeroDivisionError | OverflowError | OutOfBoundsDatetime

subsection \<open>The environment: random source, clock, files\<close>

text \<open>
  The random source is a tape of raw reals and the number of cells read so far. A numpy
  primitive reads the next cell and folds it into the range the primitive documents, so
  every value the primitive can return is produced by some tape, and no other value is.
  The clock is a tape too: the \<open>k\<close>-th call of \<^verbatim>\<open>datetime.now()\<close> reads cell \<open>k\<close>.
  A datetime is the number of microseconds since 0001-01-01T00:00:00 (proleptic Gregorian
  calendar, no time zone), which is how Python's naive datetimes add and compare.
\<close>

type_synonym datetime = int

record dataframe =
  df_index :: "real list"
  df_columns :: "(string \<times> real list) list"

record metadata =
  md_tag_columns :: "string list"
  md_sampling_frequency :: real
  md_segment_number :: int
  md_start_time :: string
  md_end_time :: string
  md_generation_timestamp :: string
  md_synthetic :: bool
  md_data_quality :: string

record dataset_info =
  di_n_segments :: int
  di_case_name :: string
  di_sensors :: "string list"
  di_sampling_frequency :: real
  di_segment_duration_minutes :: int
  di_generation_date :: string

record summary =
  sm_dataset_info :: dataset_info
  sm_file_pattern :: string
  sm_expected_workflow_steps :: "string list"

datatype file_content =
    Pickle dataframe metadata
  | Yaml summary

record world =
  tape :: "nat \<Rightarrow> real"
  drawn :: nat
  clock :: "nat \<Rightarrow> datetime"
  ticks :: nat
  files :: "string \<times> string \<Rightarrow> file_content option"

definition next_raw :: "world \<Rightarrow> real \<times> world" where
  "next_raw w = (tape w (drawn w), w\<lparr>drawn := Suc (drawn w)\<rparr>)"

text \<open>\<^verbatim>\<open>np.random.randn()\<close>: a standard normal sample, any real.\<close>

definition np_randn :: "world \<Rightarrow> real \<times> world" where
  "np_randn w = next_raw w"

text \<open>\<^verbatim>\<open>np.random.rand()\<close>: a sample of \<open>[0, 1)\<close>.\<close>

definition np_rand :: "world \<Rightarrow> real \<times> world" where
  "np_rand w = (let (x, w') = next_raw w in (frac x, w'))"

text \<open>\<^verbatim>\<open>np.random.uniform(low, high)\<close>: a sample of \<open>[low, high)\<close>.\<close>

definition np_uniform :: "real \<Rightarrow> real \<Rightarrow> world \<Rightarrow> real \<times> world" where
  "np_uniform low high w = (let (x, w') = next_raw w in (low + (high - low) * frac x, w'))"

text \<open>
  \<^verbatim>\<open>np.random.randint(low, high)\<close>: an integer of \<open>[low, high)\<close>; numpy raises
  ValueError when the range is empty.
\<close>

definition np_randint :: "int \<Rightarrow> int \<Rightarrow> world \<Rightarrow> py_error + (int \<times> world)" where
  "np_randint low high w =
     (if high \<le> low then Inl ValueError
      else let (x, w') = next_raw w in Inr (low + \<lfloor>x\<rfloor> mod (high - low), w'))"

text \<open>\<^verbatim>\<open>np.random.randn(n)\<close>: \<open>n\<close> standard normal samples.\<close>

definition np_randn_array :: "nat \<Rightarrow> world \<Rightarrow> real list \<times> world" where
  "np_randn_array n w =
     (map (\<lambda>k. tape w (drawn w + k)) [0..<n], w\<lparr>drawn := drawn w + n\<rparr>)"

text \<open>
  \<^verbatim>\<open>np.random.choice(labels, p=[0.6, 0.3, 0.1])\<close> with three labels: one uniform sample
  looked up in the cumulative weights.
\<close>

definition np_choice3 :: "string \<Rightarrow> string \<Rightarrow> string \<Rightarrow> world \<Rightarrow> string \<times> world" where
  "np_choice3 a b c w =
     (let (x, w') = next_raw w; u = frac x
      in ((if u < 0.6 then a else if u < 0.9 then b else c), w'))"

text \<open>\<^verbatim>\<open>datetime.now()\<close>.\<close>

definition datetime_now :: "world \<Rightarrow> datetime \<times> world" where
  "datetime_now w = (clock w (ticks w), w\<lparr>ticks := Suc (ticks w)\<rparr>)"

subsection \<open>Numbers and arrays\<close>

text \<open>\<^verbatim>\<open>int(x)\<close> on a float truncates towards zero.\<close>

definition py_int :: "real \<Rightarrow> int" where
  "py_int x = (if 0 \<le> x then \<lfloor>x\<rfloor> else \<lceil>x\<rceil>)"

text \<open>
  \<^verbatim>\<open>np.linspace(a, b, n)\<close>: \<open>n\<close> evenly spaced points, both ends included; numpy raises
  ValueError for a negative \<open>n\<close>, so the count is checked where it is an \<open>int\<close>.
\<close>

definition np_linspace :: "real \<Rightarrow> real \<Rightarrow> nat \<Rightarrow> real list" where
  "np_linspace a b n =
     (if n = 1 then [a]
      else map (\<lambda>k. a + real k * ((b - a) / real (n - 1))) [0..<n])"

text \<open>
  A slice bound \<open>i\<close> of a sequence of length \<open>n\<close>: a negative bound counts from the end,
  and a bound past either end is clipped.
\<close>

definition slice_norm :: "int \<Rightarrow> int \<Rightarrow> nat" where
  "slice_norm n i = nat (if i < 0 then max (i + n) 0 else min i n)"

text \<open>\<^verbatim>\<open>signal[a:b] += c\<close> for a scalar \<open>c\<close>.\<close>

definition add_slice :: "int \<Rightarrow> int \<Rightarrow> real \<Rightarrow> real list \<Rightarrow> real list" where
  "add_slice a b c xs =
     (let n = int (length xs); lo = slice_norm n a; hi = slice_norm n b
      in map (\<lambda>k. if lo \<le> k \<and> k < hi then xs ! k + c else xs ! k) [0..<length xs])"

text \<open>
  \<^verbatim>\<open>signal[a:b] += arr\<close> for an array \<open>arr\<close>; \<open>b = None\<close> is the slice \<^verbatim>\<open>signal[a:]\<close>.
  numpy adds element by element when the array is as long as the slice, repeats a
  one-element array over the slice, and raises ValueError otherwise.
\<close>

definition iadd_slice :: "int \<Rightarrow> int option \<Rightarrow> real list \<Rightarrow> real list \<Rightarrow> py_error + real list" where
  "iadd_slice a b arr xs =
     (let n = int (length xs);
          lo = slice_norm n a;
          hi = (case b of None \<Rightarrow> length xs | Some b' \<Rightarrow> slice_norm n b')
      in if length arr = hi - lo
         then Inr (map (\<lambda>k. if lo \<le> k \<and> k < hi then xs ! k + arr ! (k - lo) else xs ! k)
                     [0..<length xs])
         else if length arr = 1
         then Inr (map (\<lambda>k. if lo \<le> k \<and> k < hi then xs ! k + arr ! 0 else xs ! k)
                     [0..<length xs])
         else Inl ValueError)"

text \<open>\<^verbatim>\<open>np.mean\<close>; on an empty array numpy returns nan, which the model does not have.\<close>

definition np_mean :: "real list \<Rightarrow> real" where
  "np_mean xs = sum_list xs / real (length xs)"

subsection \<open>The synthesizer, step by step\<close>

text \<open>
  Lines 87-95: with probability 10% a constant is added over a random sub-range.
\<close>

definition inject_outlier :: "int \<Rightarrow> real list \<Rightarrow> world \<Rightarrow> py_error + (real list \<times> world)" where
  "inject_outlier n_samples signal w =
     (let (u, w1) = np_rand w in
      if u < 0.1 then
        (case np_randint (py_int (0.1 * real_of_int n_samples))
                         (py_int (0.8 * real_of_int n_samples)) w1 of
           Inl e \<Rightarrow> Inl e
         | Inr (outlier_start, w2) \<Rightarrow>
            (case np_randint (py_int (0.01 * real_of_int n_samples))
                             (py_int (0.05 * real_of_int n_samples)) w2 of
               Inl e \<Rightarrow> Inl e
             | Inr (outlier_duration, w3) \<Rightarrow>
                 let outlier_end = min (outlier_start + outlier_duration) n_samples;
                     (z, w4) = np_randn w3;
                     shift_amplitude = 0.3 * z
                 in Inr (add_slice outlier_start outlier_end shift_amplitude signal, w4)))
      else Inr (signal, w1))"

text \<open>
  Lines 66-76: the modal contributions, one per base frequency; \<open>j\<close> is the mode index
  of \<^verbatim>\<open>enumerate\<close>, \<open>i\<close> the sensor's position and \<open>m\<close> the number of sensors.
\<close>

fun add_modes ::
  "nat \<Rightarrow> nat \<Rightarrow> real list \<Rightarrow> nat \<Rightarrow> real list \<Rightarrow> real list \<Rightarrow> world \<Rightarrow> real list \<times> world" where
  "add_modes i m t j [] signal w = (signal, w)"
| "add_modes i m t j (freq # base_frequencies) signal w =
     (let mode_factor = sin (pi * real (i + 1) / real (m + 1));
          (z, w1) = np_randn w;
          freq_var = freq * (1 + 0.02 * z);
          amplitude = 0.1 * mode_factor * (1 / real (j + 1));
          (phase, w2) = np_uniform 0 (2 * pi) w1
      in add_modes i m t (j + 1) base_frequencies
           (map2 (\<lambda>s tk. s + amplitude * sin (2 * pi * freq_var * tk + phase)) signal t) w2)"

text \<open>Lines 78-81: the low-frequency trend.\<close>

definition add_trend :: "real \<Rightarrow> real list \<Rightarrow> real list \<Rightarrow> world \<Rightarrow> real list \<times> world" where
  "add_trend trend_amplitude t signal w =
     (let (z, w1) = np_randn w;
          trend_freq = 0.001 + 0.001 * z;
          (phase, w2) = np_uniform 0 (2 * pi) w1
      in (map2 (\<lambda>s tk. s + trend_amplitude * sin (2 * pi * trend_freq * tk + phase)) signal t,
          w2))"

text \<open>Lines 83-85: the noise.\<close>

definition add_noise :: "real \<Rightarrow> int \<Rightarrow> real list \<Rightarrow> world \<Rightarrow> real list \<times> world" where
  "add_noise noise_level n_samples signal w =
     (let (noise, w1) = np_randn_array (nat n_samples) w
      in (map2 (\<lambda>s e. s + noise_level * e) signal noise, w1))"

text \<open>Lines 101-104 and 106-109: the ramps at the two edges.\<close>

definition start_edge :: "int \<Rightarrow> real list \<Rightarrow> world \<Rightarrow> py_error + (real list \<times> world)" where
  "start_edge edge_samples signal w =
     (let (u, w1) = np_rand w in
      if u < 0.5 then
        (let ramp = np_linspace 2.0 0 (nat edge_samples);
             (z, w2) = np_randn w1
         in case iadd_slice 0 (Some edge_samples) (map (\<lambda>r. r * z) ramp) signal of
              Inl e \<Rightarrow> Inl e
            | Inr signal' \<Rightarrow> Inr (signal', w2))
      else Inr (signal, w1))"

definition end_edge :: "int \<Rightarrow> real list \<Rightarrow> world \<Rightarrow> py_error + (real list \<times> world)" where
  "end_edge edge_samples signal w =
     (let (u, w1) = np_rand w in
      if u < 0.5 then
        (let ramp = np_linspace 0 (- 1.5) (nat edge_samples);
             (z, w2) = np_randn w1
         in case iadd_slice (- edge_samples) None (map (\<lambda>r. r * z) ramp) signal of
              Inl e \<Rightarrow> Inl e
            | Inr signal' \<Rightarrow> Inr (signal', w2))
      else Inr (signal, w1))"

text \<open>Lines 97-109: with probability 20% the edge artifacts are tried.\<close>

definition inject_edges :: "int \<Rightarrow> real list \<Rightarrow> world \<Rightarrow> py_error + (real list \<times> world)" where
  "inject_edges n_samples signal w =
     (let (u, w1) = np_rand w in
      if u < 0.2 then
        (let edge_samples = py_int (0.02 * real_of_int n_samples)
         in case start_edge edge_samples signal w1 of
              Inl e \<Rightarrow> Inl e
            | Inr (signal', w2) \<Rightarrow> end_edge edge_samples signal' w2)
      else Inr (signal, w1))"

text \<open>Lines 111-113: the mean is moved to a value drawn from \<open>[-1.05, -0.95)\<close>.\<close>

definition recenter :: "real list \<Rightarrow> real \<Rightarrow> real list" where
  "recenter signal target_mean = map (\<lambda>x. x - np_mean signal + target_mean) signal"

definition recenter_step :: "real list \<Rightarrow> world \<Rightarrow> real list \<times> world" where
  "recenter_step signal w =
     (let (target_mean, w1) = np_uniform (- 1.05) (- 0.95) w
      in (recenter signal target_mean, w1))"

text \<open>Lines 63-113: the body of the loop over the sensors.\<close>

definition sensor_signal ::
  "nat \<Rightarrow> nat \<Rightarrow> int \<Rightarrow> real list \<Rightarrow> real list \<Rightarrow> real \<Rightarrow> real \<Rightarrow> world
     \<Rightarrow> py_error + (real list \<times> world)" where
  "sensor_signal i m n_samples t base_frequencies noise_level trend_amplitude w =
     (let (signal1, w1) = add_modes i m t 0 base_frequencies (replicate (nat n_samples) 0) w;
          (signal2, w2) = add_trend trend_amplitude t signal1 w1;
          (signal3, w3) = add_noise noise_level n_samples signal2 w2
      in case inject_outlier n_samples signal3 w3 of
           Inl e \<Rightarrow> Inl e
         | Inr (signal4, w4) \<Rightarrow>
             (case inject_edges n_samples signal4 w4 of
                Inl e \<Rightarrow> Inl e
              | Inr (signal5, w5) \<Rightarrow> Inr (recenter_step signal5 w5)))"

text \<open>
  \<^verbatim>\<open>data[sensor] = signal\<close> on a dict that keeps insertion order: a key already present
  keeps its place and takes the new value.
\<close>

fun dict_set :: "(string \<times> 'v) list \<Rightarrow> string \<Rightarrow> 'v \<Rightarrow> (string \<times> 'v) list" where
  "dict_set [] k v = [(k, v)]"
| "dict_set ((k', v') # d) k v = (if k' = k then (k, v) # d else (k', v') # dict_set d k v)"

fun sensor_loop ::
  "nat \<Rightarrow> nat \<Rightarrow> int \<Rightarrow> real list \<Rightarrow> real list \<Rightarrow> real \<Rightarrow> real \<Rightarrow> string list
     \<Rightarrow> (string \<times> real list) list \<Rightarrow> world
     \<Rightarrow> py_error + ((string \<times> real list) list \<times> world)" where
  "sensor_loop i m n_samples t base_frequencies noise_level trend_amplitude [] data w =
     Inr (data, w)"
| "sensor_loop i m n_samples t base_frequencies noise_level trend_amplitude (sensor # rest) data w =
     (case sensor_signal i m n_samples t base_frequencies noise_level trend_amplitude w of
        Inl e \<Rightarrow> Inl e
      | Inr (signal, w') \<Rightarrow>
          sensor_loop (i + 1) m n_samples t base_frequencies noise_level trend_amplitude rest
            (dict_set data sensor signal) w')"

subsection \<open>Dates and times\<close>

text \<open>
  The calendar arithmetic of Python's \<^verbatim>\<open>datetime\<close> module (its reference implementation,
  \<^verbatim>\<open>_pydatetime.py\<close>): days are counted from 0001-01-01, which is day 1.
\<close>

definition is_leap :: "int \<Rightarrow> bool" where
  "is_leap year = (year mod 4 = 0 \<and> (year mod 100 \<noteq> 0 \<or> year mod 400 = 0))"

definition days_before_year :: "int \<Rightarrow> int" where
  "days_before_year year = (let y = year - 1 in y * 365 + y div 4 - y div 100 + y div 400)"

definition DAYS_IN_MONTH :: "int list" where
  "DAYS_IN_MONTH = [- 1, 31, 28, 31, 30, 31, 30, 31, 31, 30, 31, 30, 31]"

definition DAYS_BEFORE_MONTH :: "int list" where
  "DAYS_BEFORE_MONTH = [- 1, 0, 31, 59, 90, 120, 151, 181, 212, 243, 273, 304, 334]"

definition days_before_month :: "int \<Rightarrow> int \<Rightarrow> int" where
  "days_before_month year month =
     DAYS_BEFORE_MONTH ! nat month + (if 2 < month \<and> is_leap year then 1 else 0)"

definition ymd2ord :: "int \<Rightarrow> int \<Rightarrow> int \<Rightarrow> int" where
  "ymd2ord year month day = days_before_year year + days_before_month year month + day"

definition ord2ymd :: "int \<Rightarrow> int \<times> int \<times> int" where
  "ord2ymd ordinal =
     (let n = ordinal - 1;
          n400 = n div 146097; n = n mod 146097;
          year = n400 * 400 + 1;
          n100 = n div 36524; n = n mod 36524;
          n4 = n div 1461; n = n mod 1461;
          n1 = n div 365; n = n mod 365;
          year = year + n100 * 100 + n4 * 4 + n1
      in if n1 = 4 \<or> n100 = 4 then (year - 1, 12, 31)
         else
           let leapyear = (n1 = 3 \<and> (n4 \<noteq> 24 \<or> n100 = 3));
               month = (n + 50) div 32;
               preceding = DAYS_BEFORE_MONTH ! nat month + (if 2 < month \<and> leapyear then 1 else 0)
           in if n < preceding
              then
                let month = month - 1;
                    preceding = preceding -
                      (DAYS_IN_MONTH ! nat month + (if month = 2 \<and> leapyear then 1 else 0))
                in (year, month, n - preceding + 1)
              else (year, month, n - preceding + 1))"

text \<open>\<^verbatim>\<open>datetime(year, month, day, hour, minute, second)\<close> for valid fields.\<close>

definition mk_datetime :: "int \<Rightarrow> int \<Rightarrow> int \<Rightarrow> int \<Rightarrow> int \<Rightarrow> int \<Rightarrow> datetime" where
  "mk_datetime year month day hour minute second =
     ((ymd2ord year month day - 1) * 86400 + hour * 3600 + minute * 60 + second) * 1000000"

definition dt_year :: "datetime \<Rightarrow> int" where
  "dt_year dt = fst (ord2ymd (dt div 86400000000 + 1))"

definition dt_month :: "datetime \<Rightarrow> int" where
  "dt_month dt = fst (snd (ord2ymd (dt div 86400000000 + 1)))"

definition dt_day :: "datetime \<Rightarrow> int" where
  "dt_day dt = snd (snd (ord2ymd (dt div 86400000000 + 1)))"

definition dt_hour :: "datetime \<Rightarrow> int" where
  "dt_hour dt = (dt mod 86400000000) div 3600000000"

definition dt_minute :: "datetime \<Rightarrow> int" where
  "dt_minute dt = ((dt mod 86400000000) div 60000000) mod 60"

definition dt_second :: "datetime \<Rightarrow> int" where
  "dt_second dt = ((dt mod 86400000000) div 1000000) mod 60"

definition dt_microsecond :: "datetime \<Rightarrow> int" where
  "dt_microsecond dt = dt mod 1000000"

text \<open>
  \<^verbatim>\<open>timedelta(minutes=k)\<close>, in microseconds; Python raises OverflowError beyond
  999999999 days.
\<close>

definition minutes :: "int \<Rightarrow> int" where
  "minutes k = k * 60000000"

definition timedelta_minutes :: "int \<Rightarrow> py_error + int" where
  "timedelta_minutes k =
     (if \<bar>minutes k div 86400000000\<bar> > 999999999 then Inl OverflowError
      else Inr (minutes k))"

text \<open>
  \<^verbatim>\<open>dt + td\<close>: OverflowError when the result leaves the years 1 to 9999 (the last day
  is day 3652059).
\<close>

definition dt_add :: "datetime \<Rightarrow> int \<Rightarrow> py_error + datetime" where
  "dt_add dt td =
     (if 0 \<le> dt + td \<and> dt + td < 3652059 * 86400000000 then Inr (dt + td)
      else Inl OverflowError)"

text \<open>\<^verbatim>\<open>dt.replace(second=0, microsecond=0)\<close>.\<close>

definition replace_second_microsecond :: "datetime \<Rightarrow> datetime" where
  "replace_second_microsecond dt = dt - dt mod 60000000"

subsection \<open>Strings\<close>

definition digit_char :: "nat \<Rightarrow> char" where
  "digit_char d = ''0123456789'' ! d"

fun str_nat :: "nat \<Rightarrow> string" where
  "str_nat n = (if n < 10 then [digit_char n] else str_nat (n div 10) @ [digit_char (n mod 10)])"

text \<open>\<^verbatim>\<open>str(i)\<close> and the \<^verbatim>\<open>{i}\<close> of an f-string, for an integer.\<close>

definition str_int :: "int \<Rightarrow> string" where
  "str_int i = (if i < 0 then ''-'' @ str_nat (nat (- i)) else str_nat (nat i))"

text \<open>A number printed with at least \<open>width\<close> digits, zeros in front.\<close>

definition zero_pad :: "nat \<Rightarrow> int \<Rightarrow> string" where
  "zero_pad width i =
     (let s = str_int i in replicate (width - length s) (CHR ''0'') @ s)"

text \<open>\<^verbatim>\<open>dt.strftime('%Y%m%d%H%M%S')\<close>.\<close>

definition strftime_compact :: "datetime \<Rightarrow> string" where
  "strftime_compact dt =
     zero_pad 4 (dt_year dt) @ zero_pad 2 (dt_month dt) @ zero_pad 2 (dt_day dt) @
     zero_pad 2 (dt_hour dt) @ zero_pad 2 (dt_minute dt) @ zero_pad 2 (dt_second dt)"

text \<open>\<^verbatim>\<open>dt.isoformat()\<close>: the microseconds are printed only when they are not zero.\<close>

definition isoformat :: "datetime \<Rightarrow> string" where
  "isoformat dt =
     zero_pad 4 (dt_year dt) @ ''-'' @ zero_pad 2 (dt_month dt) @ ''-'' @ zero_pad 2 (dt_day dt) @
     ''T'' @ zero_pad 2 (dt_hour dt) @ '':'' @ zero_pad 2 (dt_minute dt) @ '':'' @
     zero_pad 2 (dt_second dt) @
     (if dt_microsecond dt = 0 then [] else ''.'' @ zero_pad 6 (dt_microsecond dt))"

subsection \<open>The time axis of a table\<close>

text \<open>
  A timestamp of a table's index is a real number of seconds since 0001-01-01T00:00:00;
  pandas keeps nanoseconds, and its rounding to them is not part of the model. Its range
  is: a pandas timestamp lies within \<open>2^63 - 1\<close> nanoseconds of 1970-01-01 (day 719163),
  and pandas raises OutOfBoundsDatetime beyond.
\<close>

definition to_seconds :: "datetime \<Rightarrow> real" where
  "to_seconds dt = real_of_int dt / 1000000"

definition in_timestamp_bounds :: "real \<Rightarrow> bool" where
  "in_timestamp_bounds ts = (\<bar>ts - 719162 * 86400\<bar> * 1000000000 \<le> 2 ^ 63 - 1)"

text \<open>
  \<^verbatim>\<open>pd.date_range(start=start, periods=n, freq=f'{freq_ms}ms')\<close>: \<open>n\<close> timestamps, each
  \<open>freq_ms\<close> milliseconds after the one before.
\<close>

definition date_range_freq :: "datetime \<Rightarrow> nat \<Rightarrow> real \<Rightarrow> py_error + real list" where
  "date_range_freq start periods freq_ms =
     (let idx = map (\<lambda>k. to_seconds start + real k * (freq_ms / 1000)) [0..<periods]
      in if in_timestamp_bounds (to_seconds start) \<and> list_all in_timestamp_bounds idx
         then Inr idx else Inl OutOfBoundsDatetime)"

text \<open>
  \<^verbatim>\<open>pd.date_range(start=start, end=end, periods=n)\<close>: \<open>n\<close> evenly spaced timestamps,
  both ends included.
\<close>

definition date_range_span :: "datetime \<Rightarrow> datetime \<Rightarrow> nat \<Rightarrow> py_error + real list" where
  "date_range_span start end_time periods =
     (if in_timestamp_bounds (to_seconds start) \<and> in_timestamp_bounds (to_seconds end_time)
      then Inr (np_linspace (to_seconds start) (to_seconds end_time) periods)
      else Inl OutOfBoundsDatetime)"

subsection \<open>The synthesizer\<close>

definition generate_synthetic_acceleration_data ::
  "string list \<Rightarrow> real \<Rightarrow> real \<Rightarrow> real list \<Rightarrow> real \<Rightarrow> real \<Rightarrow> world
     \<Rightarrow> py_error + (dataframe \<times> world)" where
  "generate_synthetic_acceleration_data sensor_names duration_minutes fs base_frequencies
       noise_level trend_amplitude w =
     (let n_samples = py_int (duration_minutes * 60 * fs) in
      if n_samples < 0 then Inl ValueError
      else
        let t = np_linspace 0 (duration_minutes * 60) (nat n_samples);
            (now, w1) = datetime_now w;
            start_time = replace_second_microsecond now
        in if fs = 0 then Inl ZeroDivisionError
           else
             (case date_range_freq start_time (nat n_samples) (1000 / fs) of
                Inl e \<Rightarrow> Inl e
              | Inr time_index \<Rightarrow>
                  (case sensor_loop 0 (length sensor_names) n_samples t base_frequencies
                          noise_level trend_amplitude sensor_names [] w1 of
                     Inl e \<Rightarrow> Inl e
                   | Inr (data, w2) \<Rightarrow>
                       Inr (\<lparr>df_index = time_index, df_columns = data\<rparr>, w2))))"

subsection \<open>The assembler\<close>

text \<open>
  The configuration is the dict that \<^verbatim>\<open>load_config\<close> returned, read at the keys the
  assembler looks up: a key is absent (\<open>None\<close>) or holds a value of the documented type.
  \<^verbatim>\<open>d.get(key, default)\<close> is the default at an absent key.
\<close>

record geometry_config =
  gc_sensor_names :: "string list option"

record oma_config =
  oc_geometry :: "geometry_config option"

record signal_config =
  sc_sampling_frequency :: "real option"

record config =
  cf_oma :: "oma_config option"
  cf_signal_processing :: "signal_config option"

definition dict_get :: "'a option \<Rightarrow> 'a \<Rightarrow> 'a" where
  "dict_get entry fallback = (case entry of None \<Rightarrow> fallback | Some v \<Rightarrow> v)"

definition resolve_sensor_names :: "config \<Rightarrow> string list" where
  "resolve_sensor_names cfg =
     (let oma_config = dict_get (cf_oma cfg) \<lparr>oc_geometry = None\<rparr>;
          geometry = dict_get (oc_geometry oma_config) \<lparr>gc_sensor_names = None\<rparr>
      in dict_get (gc_sensor_names geometry) [''sensor_1'', ''sensor_2'', ''sensor_3'', ''sensor_4''])"

definition resolve_fs :: "config \<Rightarrow> real" where
  "resolve_fs cfg =
     (let signal_config = dict_get (cf_signal_processing cfg) \<lparr>sc_sampling_frequency = None\<rparr>
      in dict_get (sc_sampling_frequency signal_config) 250)"

text \<open>Lines 179-185 and 214: the boundary times of a segment and its file name.\<close>

definition segment_times :: "int \<Rightarrow> py_error + (datetime \<times> datetime)" where
  "segment_times segment =
     (case timedelta_minutes ((segment - 1) * 30) of
        Inl e \<Rightarrow> Inl e
      | Inr td \<Rightarrow>
          (case dt_add (mk_datetime 2024 1 1 9 0 0) td of
             Inl e \<Rightarrow> Inl e
           | Inr base_time \<Rightarrow>
               (case timedelta_minutes 25 of
                  Inl e \<Rightarrow> Inl e
                | Inr td25 \<Rightarrow>
                    (case dt_add base_time td25 of
                       Inl e \<Rightarrow> Inl e
                     | Inr end_time \<Rightarrow> Inr (base_time, end_time)))))"

definition segment_filename :: "string \<Rightarrow> int \<Rightarrow> datetime \<Rightarrow> datetime \<Rightarrow> string" where
  "segment_filename case_name segment start_time end_time =
     case_name @ ''_segment'' @ str_int segment @ ''_'' @ strftime_compact start_time @
     ''_'' @ strftime_compact end_time @ ''.pickle''"

text \<open>
  \<^verbatim>\<open>create_sample_pickle_file\<close> with a metadata dict: the file at \<open>output_dir / name\<close>
  holds the table and the metadata. Writing is taken to succeed.
\<close>

definition create_sample_pickle_file ::
  "string \<times> string \<Rightarrow> dataframe \<Rightarrow> metadata \<Rightarrow> world \<Rightarrow> world" where
  "create_sample_pickle_file output_path acceleration_data md w =
     w\<lparr>files := (files w)(output_path \<mapsto> Pickle acceleration_data md)\<rparr>"

text \<open>
  Lines 178-215: the body of the loop over the segments, up to the file name; line 218
  saves what was built.
\<close>

definition build_segment ::
  "string list \<Rightarrow> real \<Rightarrow> string \<Rightarrow> int \<Rightarrow> world
     \<Rightarrow> py_error + (string \<times> dataframe \<times> metadata \<times> world)" where
  "build_segment sensor_names fs case_name segment w =
     (case segment_times segment of
        Inl e \<Rightarrow> Inl e
      | Inr (start_time, end_time) \<Rightarrow>
          let (z1, w1) = np_randn w;
              (z2, w2) = np_randn w1
          in case generate_synthetic_acceleration_data sensor_names 25 fs
                    [4 + real_of_int segment * 0.1, 12 + real_of_int segment * 0.05,
                     18 + real_of_int segment * 0.02, 25, 35]
                    (0.05 + 0.01 * z1) (0.02 + 0.005 * z2) w2 of
               Inl e \<Rightarrow> Inl e
             | Inr (acceleration_data, w3) \<Rightarrow>
                 (case date_range_span start_time end_time
                         (length (df_index acceleration_data)) of
                    Inl e \<Rightarrow> Inl e
                  | Inr new_index \<Rightarrow>
                      let (now, w4) = datetime_now w3;
                          (quality, w5) = np_choice3 ''good'' ''fair'' ''excellent'' w4;
                          md = \<lparr>md_tag_columns = [], md_sampling_frequency = fs,
                                md_segment_number = segment,
                                md_start_time = isoformat start_time,
                                md_end_time = isoformat end_time,
                                md_generation_timestamp = isoformat now,
                                md_synthetic = True, md_data_quality = quality\<rparr>
                      in Inr (segment_filename case_name segment start_time end_time,
                              acceleration_data\<lparr>df_index := new_index\<rparr>, md, w5)))"

definition generate_segment ::
  "string list \<Rightarrow> real \<Rightarrow> string \<Rightarrow> string \<Rightarrow> int \<Rightarrow> world \<Rightarrow> py_error + world" where
  "generate_segment sensor_names fs output_dir case_name segment w =
     (case build_segment sensor_names fs case_name segment w of
        Inl e \<Rightarrow> Inl e
      | Inr (filename, acceleration_data, md, w') \<Rightarrow>
          Inr (create_sample_pickle_file (output_dir, filename) acceleration_data md w'))"

fun segment_loop ::
  "string list \<Rightarrow> real \<Rightarrow> string \<Rightarrow> string \<Rightarrow> int list \<Rightarrow> world \<Rightarrow> py_error + world" where
  "segment_loop sensor_names fs output_dir case_name [] w = Inr w"
| "segment_loop sensor_names fs output_dir case_name (segment # rest) w =
     (case generate_segment sensor_names fs output_dir case_name segment w of
        Inl e \<Rightarrow> Inl e
      | Inr w' \<Rightarrow> segment_loop sensor_names fs output_dir case_name rest w')"

text \<open>Lines 226-245: the summary and its file.\<close>

definition make_summary :: "string list \<Rightarrow> real \<Rightarrow> int \<Rightarrow> string \<Rightarrow> datetime \<Rightarrow> summary" where
  "make_summary sensor_names fs n_segments case_name now =
     \<lparr>sm_dataset_info =
        \<lparr>di_n_segments = n_segments, di_case_name = case_name, di_sensors = sensor_names,
         di_sampling_frequency = fs, di_segment_duration_minutes = 25,
         di_generation_date = isoformat now\<rparr>,
      sm_file_pattern = case_name @ ''_segment{N}_{start}_{end}.pickle'',
      sm_expected_workflow_steps =
        [''step1_data_filtering_qc.py --config config.yaml'',
         ''step2_data_processing_oma.py --config config.yaml --case-name '' @ case_name,
         ''step3_modal_analysis.py --config config.yaml --mode 6'']\<rparr>"

text \<open>
  \<^verbatim>\<open>generate_sample_dataset\<close>: the segments \<open>1, ..., n_segments\<close> in order, then the
  summary. Creating the directory and writing the files are taken to succeed, and what
  the script prints is left out.
\<close>

definition generate_sample_dataset ::
  "config \<Rightarrow> string \<Rightarrow> int \<Rightarrow> string \<Rightarrow> world \<Rightarrow> py_error + (string \<times> world)" where
  "generate_sample_dataset cfg output_dir n_segments case_name w =
     (let sensor_names = resolve_sensor_names cfg;
          fs = resolve_fs cfg
      in case segment_loop sensor_names fs output_dir case_name [1..n_segments] w of
           Inl e \<Rightarrow> Inl e
         | Inr w1 \<Rightarrow>
             let (now, w2) = datetime_now w1;
                 summary = make_summary sensor_names fs n_segments case_name now
             in Inr (output_dir,
                     w2\<lparr>files := (files w2)((output_dir, ''dataset_summary.yaml'') \<mapsto> Yaml summary)\<rparr>))"

subsection \<open>Concrete inputs\<close>

text \<open>A random tape given by its first cells; the cells after them are 0.\<close>

definition tape_of_list :: "real list \<Rightarrow> nat \<Rightarrow> real" where
  "tape_of_list xs k = (if k < length xs then xs ! k else 0)"

definition midnight_clock :: "nat \<Rightarrow> datetime" where
  "midnight_clock k = mk_datetime 2024 1 1 0 0 0"

definition no_files :: "string \<times> string \<Rightarrow> file_content option" where
  "no_files p = None"

text \<open>
  A tape on which the outlier is injected into a signal of 600 samples: the trigger
  draw is 0.05, the start is \<open>60 + 419 = 479\<close>, the duration \<open>6 + 23 = 29\<close>, the shift
  \<open>0.3 * 1\<close>.
\<close>

definition outlier_world :: world where
  "outlier_world =
     \<lparr>tape = tape_of_list [0.05, 419, 23, 1], drawn = 0,
      clock = midnight_clock, ticks = 0, files = no_files\<rparr>"

text \<open>
  The same random tape under two other clocks: half a minute and a whole minute after
  midnight.
\<close>

definition half_minute_world :: world where
  "half_minute_world = outlier_world\<lparr>clock := (\<lambda>k. mk_datetime 2024 1 1 0 0 30)\<rparr>"

definition later_world :: world where
  "later_world = outlier_world\<lparr>clock := (\<lambda>k. mk_datetime 2024 1 1 0 1 0)\<rparr>"

text \<open>
  The part of the world a call leaves alone when it only draws random numbers, and a
  world cut down to its random source.
\<close>

definition env_of ::
  "world \<Rightarrow> (nat \<Rightarrow> real) \<times> (nat \<Rightarrow> datetime) \<times> nat \<times> (string \<times> string \<Rightarrow> file_content option)" where
  "env_of w = (tape w, clock w, ticks w, files w)"

definition rng_only :: "world \<Rightarrow> world" where
  "rng_only w = \<lparr>tape = tape w, drawn = drawn w, clock = (\<lambda>k. 0), ticks = 0, files = no_files\<rparr>"

text \<open>
  The time axis of a table of \<open>duration_minutes\<close> minutes that starts at the minute of
  \<open>now\<close> fits the range of pandas timestamps.
\<close>

definition axis_fits :: "datetime \<Rightarrow> real \<Rightarrow> bool" where
  "axis_fits now duration_minutes =
     (in_timestamp_bounds (to_seconds (replace_second_microsecond now)) \<and>
      in_timestamp_bounds (to_seconds (replace_second_microsecond now) + duration_minutes * 60))"

text \<open>A call of the synthesizer: two sensors, one minute at 10 Hz.\<close>

definition synth_call :: "world \<Rightarrow> py_error + (dataframe \<times> world)" where
  "synth_call w =
     generate_synthetic_acceleration_data [''s1'', ''s2''] 1 10 [5, 12, 18, 25, 35] 0.05 0.02 w"

text \<open>
  Every reading of the clock starts a 25-minute axis that fits the range of pandas
  timestamps.
\<close>

definition clock_fits :: "world \<Rightarrow> bool" where
  "clock_fits w = (\<forall>k. axis_fits (clock w k) 25)"

text \<open>The base frequencies of a segment (line 192).\<close>

definition segment_frequencies :: "int \<Rightarrow> real list" where
  "segment_frequencies segment =
     [4 + real_of_int segment * 0.1, 12 + real_of_int segment * 0.05,
      18 + real_of_int segment * 0.02, 25, 35]"

text \<open>The name of the file of a segment, when its boundary times exist.\<close>

definition segment_file :: "string \<Rightarrow> int \<Rightarrow> string option" where
  "segment_file case_name segment =
     (case segment_times segment of
        Inl e \<Rightarrow> None
      | Inr (start_time, end_time) \<Rightarrow>
          Some (segment_filename case_name segment start_time end_time))"

text \<open>A record that the loop body builds for a segment, in some state of the world.\<close>

definition segment_record ::
  "string list \<Rightarrow> real \<Rightarrow> string \<Rightarrow> int \<Rightarrow> string \<Rightarrow> dataframe \<Rightarrow> metadata \<Rightarrow> bool" where
  "segment_record sensor_names fs case_name segment filename acceleration_data md =
     (\<exists>w w'. build_segment sensor_names fs case_name segment w =
               Inr (filename, acceleration_data, md, w'))"

text \<open>
  The configuration of the end-to-end scenario: sensors \<open>s1\<close> and \<open>s2\<close> at 10 Hz; and
  a configuration with neither field.
\<close>

definition e2e_config :: config where
  "e2e_config =
     \<lparr>cf_oma = Some \<lparr>oc_geometry = Some \<lparr>gc_sensor_names = Some [''s1'', ''s2'']\<rparr>\<rparr>,
      cf_signal_processing = Some \<lparr>sc_sampling_frequency = Some 10\<rparr>\<rparr>"

definition empty_config :: config where
  "empty_config = \<lparr>cf_oma = None, cf_signal_processing = None\<rparr>"

text \<open>A field is absent when a key on the way to it is.\<close>

definition sensor_names_absent :: "config \<Rightarrow> bool" where
  "sensor_names_absent cfg =
     (case cf_oma cfg of
        None \<Rightarrow> True
      | Some oma_config \<Rightarrow>
          (case oc_geometry oma_config of
             None \<Rightarrow> True
           | Some geometry \<Rightarrow> gc_sensor_names geometry = None))"

definition sampling_frequency_absent :: "config \<Rightarrow> bool" where
  "sampling_frequency_absent cfg =
     (case cf_signal_processing cfg of
        None \<Rightarrow> True
      | Some signal_config \<Rightarrow> sc_sampling_frequency signal_config = None)"

definition with_sensor_names :: "config \<Rightarrow> string list \<Rightarrow> config" where
  "with_sensor_names cfg sensor_names =
     cfg\<lparr>cf_oma := Some \<lparr>oc_geometry = Some \<lparr>gc_sensor_names = Some sensor_names\<rparr>\<rparr>\<rparr>"

definition with_sampling_frequency :: "config \<Rightarrow> real \<Rightarrow> config" where
  "with_sampling_frequency cfg fs =
     cfg\<lparr>cf_signal_processing := Some \<lparr>sc_sampling_frequency = Some fs\<rparr>\<rparr>"


section \<open>Properties\<close>

subsection \<open>Arithmetic and slices\<close>

lemma py_int_le: "0 \<le> x \<Longrightarrow> real_of_int (py_int x) \<le> x"
  by (simp add: py_int_def)

lemma py_int_nonneg: "0 \<le> x \<Longrightarrow> 0 \<le> py_int x"
  by (simp add: py_int_def)


lemma length_add_slice: "length (add_slice a b c xs) = length xs"
  by (simp add: add_slice_def Let_def)



subsection \<open>The outlier region\<close>




subsection \<open>Decimal numerals and file names\<close>

declare str_nat.simps [simp del]

lemma digit_char_inj: "a < 10 \<Longrightarrow> b < 10 \<Longrightarrow> digit_char a = digit_char b \<Longrightarrow> a = b"
proof -
  assume a: "a < 10" and b: "b < 10" and e: "digit_char a = digit_char b"
  have d: "distinct ''0123456789''" by simp
  have "a < length ''0123456789''" "b < length ''0123456789''" using a b by simp_all
  with d e show ?thesis unfolding digit_char_def by (simp only: nth_eq_iff_index_eq)
qed

lemma digit_char_digit: "d < 10 \<Longrightarrow> digit_char d \<in> set ''0123456789''"
  unfolding digit_char_def by (rule nth_mem) simp

lemma str_nat_nonempty: "str_nat n \<noteq> []"
  by (subst str_nat.simps) simp

lemma str_nat_digits: "set (str_nat n) \<subseteq> set ''0123456789''"
proof (induction n rule: str_nat.induct)
  case (1 n)
  show ?case
  proof (cases "n < 10")
    case True
    then show ?thesis using digit_char_digit[of n] by (subst str_nat.simps) simp
  next
    case False
    have "n mod 10 < 10" by simp
    from digit_char_digit[OF this] "1.IH"[OF False] False show ?thesis
      by (subst str_nat.simps) simp
  qed
qed

lemma str_nat_inj: "str_nat n = str_nat m \<Longrightarrow> n = m"
proof (induction n arbitrary: m rule: str_nat.induct)
  case (1 n)
  show ?case
  proof (cases "n < 10")
    case True
    then have n: "str_nat n = [digit_char n]" by (subst str_nat.simps) simp
    show ?thesis
    proof (cases "m < 10")
      case mt: True
      then have "str_nat m = [digit_char m]" by (subst str_nat.simps) simp
      with n "1.prems" True mt show ?thesis by (simp add: digit_char_inj)
    next
      case mf: False
      then have "str_nat m = str_nat (m div 10) @ [digit_char (m mod 10)]"
        by (subst str_nat.simps) simp
      with n "1.prems" str_nat_nonempty[of "m div 10"] show ?thesis by simp
    qed
  next
    case False
    then have n: "str_nat n = str_nat (n div 10) @ [digit_char (n mod 10)]"
      by (subst str_nat.simps) simp
    show ?thesis
    proof (cases "m < 10")
      case mt: True
      then have "str_nat m = [digit_char m]" by (subst str_nat.simps) simp
      with n "1.prems" str_nat_nonempty[of "n div 10"] show ?thesis by simp
    next
      case mf: False
      then have "str_nat m = str_nat (m div 10) @ [digit_char (m mod 10)]"
        by (subst str_nat.simps) simp
      with n "1.prems" have e1: "str_nat (n div 10) = str_nat (m div 10)"
        and e2: "digit_char (n mod 10) = digit_char (m mod 10)" by simp_all
      from "1.IH"[OF False e1] have d: "n div 10 = m div 10" .
      have "n mod 10 = m mod 10" using e2 by (intro digit_char_inj) simp_all
      moreover have "n = 10 * (n div 10) + n mod 10" "m = 10 * (m div 10) + m mod 10"
        by simp_all
      ultimately show ?thesis using d by simp
    qed
  qed
qed

lemma minus_not_in_str_nat: "CHR ''-'' \<notin> set (str_nat n)"
proof -
  have "CHR ''-'' \<notin> set ''0123456789''" by simp
  with str_nat_digits[of n] show ?thesis by blast
qed

lemma underscore_not_in_str_nat: "CHR ''_'' \<notin> set (str_nat n)"
proof -
  have "CHR ''_'' \<notin> set ''0123456789''" by simp
  with str_nat_digits[of n] show ?thesis by blast
qed

lemma underscore_not_in_str_int: "CHR ''_'' \<notin> set (str_int i)"
  by (simp add: str_int_def underscore_not_in_str_nat)

lemma str_int_inj: "str_int i = str_int j \<Longrightarrow> i = j"
proof -
  assume e: "str_int i = str_int j"
  have neg: "\<And>a b. ''-'' @ str_nat a \<noteq> str_nat b"
  proof
    fix a b assume h: "''-'' @ str_nat a = str_nat b"
    have "CHR ''-'' \<in> set (''-'' @ str_nat a)" by simp
    with h have "CHR ''-'' \<in> set (str_nat b)" by simp
    with minus_not_in_str_nat[of b] show False by simp
  qed
  show ?thesis
  proof (cases "i < 0")
    case True
    show ?thesis
    proof (cases "j < 0")
      case jt: True
      with True e have "str_nat (nat (- i)) = str_nat (nat (- j))" by (simp add: str_int_def)
      from str_nat_inj[OF this] True jt show ?thesis by simp
    next
      case jf: False
      with True e neg[of "nat (- i)" "nat j"] show ?thesis by (simp add: str_int_def)
    qed
  next
    case False
    show ?thesis
    proof (cases "j < 0")
      case jt: True
      with False e neg[of "nat (- j)" "nat i"] show ?thesis by (simp add: str_int_def)
    next
      case jf: False
      with False e have "str_nat (nat i) = str_nat (nat j)" by (simp add: str_int_def)
      from str_nat_inj[OF this] False jf show ?thesis by simp
    qed
  qed
qed

lemma split_at_separator:
  "xs @ c # r = ys @ c # r' \<Longrightarrow> c \<notin> set xs \<Longrightarrow> c \<notin> set ys \<Longrightarrow> xs = ys"
proof (induction xs arbitrary: ys)
  case Nil
  then show ?case by (cases ys) auto
next
  case (Cons x xs)
  then show ?case by (cases ys) auto
qed

lemma segment_filename_inj:
  "segment_filename c s st en = segment_filename c s' st' en' \<Longrightarrow> s = s'"
proof -
  assume "segment_filename c s st en = segment_filename c s' st' en'"
  then have "str_int s @ CHR ''_'' # (strftime_compact st @ ''_'' @ strftime_compact en @ ''.pickle'')
      = str_int s' @ CHR ''_'' # (strftime_compact st' @ ''_'' @ strftime_compact en' @ ''.pickle'')"
    by (simp add: segment_filename_def)
  then have "str_int s = str_int s'"
    by (rule split_at_separator) (rule underscore_not_in_str_int)+
  then show ?thesis by (rule str_int_inj)
qed

subsection \<open>Segment times\<close>

lemma mk_anchor: "mk_datetime 2024 1 1 9 0 0 = 63839696400000000"
  by (simp add: mk_datetime_def ymd2ord_def days_before_year_def days_before_month_def
      DAYS_BEFORE_MONTH_def is_leap_def Let_def)

lemma timedelta_25: "timedelta_minutes 25 = Inr (minutes 25)"
  by (simp add: timedelta_minutes_def minutes_def)

lemma segment_times_Inr:
  "segment_times s = Inr (st, en) \<Longrightarrow>
     st = mk_datetime 2024 1 1 9 0 0 + minutes ((s - 1) * 30) \<and> en = st + minutes 25"
  by (auto simp: segment_times_def timedelta_minutes_def dt_add_def
      split: if_splits sum.splits)

lemma segment_times_total:
  "1 \<le> s \<Longrightarrow> s \<le> 139832334 \<Longrightarrow>
     segment_times s =
       Inr (mk_datetime 2024 1 1 9 0 0 + minutes ((s - 1) * 30),
            mk_datetime 2024 1 1 9 0 0 + minutes ((s - 1) * 30) + minutes 25)"
  by (simp add: segment_times_def timedelta_minutes_def dt_add_def mk_anchor minutes_def)

lemma segment_times_overflow:
  "139832334 < s \<Longrightarrow> segment_times s = Inl OverflowError"
  by (simp add: segment_times_def timedelta_minutes_def dt_add_def mk_anchor minutes_def
      split: sum.splits)

text \<open>
  Claim C5. The code computes the boundary times of segment \<open>s\<close> by \<open>segment_times\<close>.
  Whenever it returns them, the start is the anchor 2024-01-01T09:00:00 plus
  \<open>(s - 1) * 30\<close> minutes and the end is the start plus 25 minutes, so the start of
  segment \<open>s + 1\<close> is the start of segment \<open>s\<close> plus 30 minutes; and it does return
  them for every index from 1 up to 139832334, the last one whose times lie before
  the end of year 9999.
\<close>

theorem segment_times_spacing:
  "(segment_times s = Inr (st, en) \<longrightarrow>
      st = mk_datetime 2024 1 1 9 0 0 + minutes ((s - 1) * 30) \<and> en = st + minutes 25 \<and>
      (\<forall>st' en'. segment_times (s + 1) = Inr (st', en') \<longrightarrow> st' = st + minutes 30)) \<and>
   (1 \<le> s \<and> s \<le> 139832334 \<longrightarrow> (\<exists>st en. segment_times s = Inr (st, en)))"
proof (intro conjI impI allI)
  assume a: "segment_times s = Inr (st, en)"
  from segment_times_Inr[OF a]
  show "st = mk_datetime 2024 1 1 9 0 0 + minutes ((s - 1) * 30)" "en = st + minutes 25"
    by simp_all
  fix st' en' assume b: "segment_times (s + 1) = Inr (st', en')"
  from segment_times_Inr[OF a] segment_times_Inr[OF b]
  show "st' = st + minutes 30" by (simp add: minutes_def)
next
  assume "1 \<le> s \<and> s \<le> 139832334"
  then show "\<exists>st en. segment_times s = Inr (st, en)"
    using segment_times_total[of s] by blast
qed

theorem segment_times_spacing_witness:
  "segment_times 1 = Inr (mk_datetime 2024 1 1 9 0 0, mk_datetime 2024 1 1 9 25 0) \<and>
   segment_times (1 + 1) = Inr (mk_datetime 2024 1 1 9 30 0, mk_datetime 2024 1 1 9 55 0) \<and>
   mk_datetime 2024 1 1 9 0 0 = mk_datetime 2024 1 1 9 0 0 + minutes ((1 - 1) * 30) \<and>
   mk_datetime 2024 1 1 9 25 0 = mk_datetime 2024 1 1 9 0 0 + minutes 25 \<and>
   mk_datetime 2024 1 1 9 30 0 = mk_datetime 2024 1 1 9 0 0 + minutes 30 \<and>
   (1::int) \<le> 1 \<and> (1::int) \<le> 139832334 \<and> (\<exists>st en. segment_times 1 = Inr (st, en))"
proof -
  have e1: "segment_times 1 = Inr (mk_datetime 2024 1 1 9 0 0, mk_datetime 2024 1 1 9 25 0)"
    by (simp add: segment_times_def timedelta_minutes_def dt_add_def minutes_def
        mk_datetime_def ymd2ord_def days_before_year_def days_before_month_def
        DAYS_BEFORE_MONTH_def is_leap_def Let_def)
  have e2: "segment_times (1 + 1) = Inr (mk_datetime 2024 1 1 9 30 0, mk_datetime 2024 1 1 9 55 0)"
    by (simp add: segment_times_def timedelta_minutes_def dt_add_def minutes_def
        mk_datetime_def ymd2ord_def days_before_year_def days_before_month_def
        DAYS_BEFORE_MONTH_def is_leap_def Let_def)
  from segment_times_spacing[of 1 "mk_datetime 2024 1 1 9 0 0" "mk_datetime 2024 1 1 9 25 0"] e1 e2
  show ?thesis by auto
qed

subsection \<open>Lengths and means through the synthesizer\<close>

lemma length_np_linspace: "length (np_linspace a b n) = n"
  by (simp add: np_linspace_def)

lemma length_add_modes:
  "length t = length signal \<Longrightarrow>
   length (fst (add_modes i m t j base_frequencies signal w)) = length signal"
  by (induction base_frequencies arbitrary: j signal w) (simp_all add: Let_def split_def)

lemma length_add_trend:
  "length t = length signal \<Longrightarrow> length (fst (add_trend a t signal w)) = length signal"
  by (simp add: add_trend_def Let_def split_def)

lemma length_add_noise:
  "length signal = nat n \<Longrightarrow> length (fst (add_noise a n signal w)) = length signal"
  by (simp add: add_noise_def np_randn_array_def Let_def split_def)

lemma length_inject_outlier:
  "inject_outlier n signal w = Inr (signal', w') \<Longrightarrow> length signal' = length signal"
  by (auto simp: inject_outlier_def Let_def split_def length_add_slice
      split: if_splits sum.splits)

lemma length_iadd_slice:
  "iadd_slice a b arr xs = Inr ys \<Longrightarrow> length ys = length xs"
  by (auto simp: iadd_slice_def Let_def split: if_splits)

lemma length_start_edge:
  "start_edge e signal w = Inr (signal', w') \<Longrightarrow> length signal' = length signal"
  by (auto simp: start_edge_def Let_def split_def dest: length_iadd_slice
      split: if_splits sum.splits)

lemma length_end_edge:
  "end_edge e signal w = Inr (signal', w') \<Longrightarrow> length signal' = length signal"
  by (auto simp: end_edge_def Let_def split_def dest: length_iadd_slice
      split: if_splits sum.splits)

lemma length_inject_edges:
  "inject_edges n signal w = Inr (signal', w') \<Longrightarrow> length signal' = length signal"
  by (auto simp: inject_edges_def Let_def split_def
      dest!: length_start_edge length_end_edge split: if_splits sum.splits)

lemma length_recenter: "length (recenter signal c) = length signal"
  by (simp add: recenter_def)

lemma sum_list_shift:
  "sum_list (map (\<lambda>x. x + d) xs) = sum_list xs + real (length xs) * (d::real)"
  by (induction xs) (simp_all add: algebra_simps)

lemma np_mean_recenter:
  assumes "xs \<noteq> []"
  shows "np_mean (recenter xs c) = c"
proof -
  let ?n = "real (length xs)"
  have n: "?n \<noteq> 0" using assms by simp
  have "recenter xs c = map (\<lambda>x. x + (c - np_mean xs)) xs"
    by (simp add: recenter_def algebra_simps)
  then have "sum_list (recenter xs c) = sum_list xs + ?n * (c - np_mean xs)"
    by (simp add: sum_list_shift)
  also have "\<dots> = ?n * c" using n by (simp add: np_mean_def algebra_simps)
  finally show ?thesis using n by (simp add: np_mean_def length_recenter)
qed

lemma np_uniform_range:
  "lo < hi \<Longrightarrow> lo \<le> fst (np_uniform lo hi w) \<and> fst (np_uniform lo hi w) < hi"
proof -
  assume lt: "lo < hi"
  have f: "0 \<le> frac (fst (next_raw w))" "frac (fst (next_raw w)) < 1"
    by (simp_all add: frac_lt_1)
  have "(hi - lo) * frac (fst (next_raw w)) < (hi - lo) * 1"
    using lt f(2) by (intro mult_strict_left_mono) simp_all
  moreover have "0 \<le> (hi - lo) * frac (fst (next_raw w))" using lt f(1) by simp
  ultimately show ?thesis by (simp add: np_uniform_def split_def Let_def)
qed

lemma recenter_step_props:
  "recenter_step signal w = (s, w') \<Longrightarrow>
     length s = length signal \<and>
     (signal \<noteq> [] \<longrightarrow> - 1.05 \<le> np_mean s \<and> np_mean s < - 0.95)"
proof -
  assume a: "recenter_step signal w = (s, w')"
  then have s: "s = recenter signal (fst (np_uniform (- 1.05) (- 0.95) w))"
    by (auto simp: recenter_step_def split_def Let_def)
  have "(- 1.05 :: real) < - 0.95" by simp
  from np_uniform_range[OF this, of w] s show ?thesis
    by (simp add: length_recenter np_mean_recenter)
qed

lemma sensor_signal_props:
  assumes ret: "sensor_signal i m n t base_frequencies noise_level trend_amplitude w = Inr (s, w')"
    and t: "length t = nat n"
  shows "length s = nat n \<and> (0 < n \<longrightarrow> - 1.05 \<le> np_mean s \<and> np_mean s < - 0.95)"
proof -
  obtain s1 w1 where a1: "add_modes i m t 0 base_frequencies (replicate (nat n) 0) w = (s1, w1)"
    by (cases "add_modes i m t 0 base_frequencies (replicate (nat n) 0) w")
  obtain s2 w2 where a2: "add_trend trend_amplitude t s1 w1 = (s2, w2)"
    by (cases "add_trend trend_amplitude t s1 w1")
  obtain s3 w3 where a3: "add_noise noise_level n s2 w2 = (s3, w3)"
    by (cases "add_noise noise_level n s2 w2")
  from ret a1 a2 a3 obtain s4 w4 where a4: "inject_outlier n s3 w3 = Inr (s4, w4)"
    by (auto simp: sensor_signal_def split: sum.splits)
  from ret a1 a2 a3 a4 obtain s5 w5 where a5: "inject_edges n s4 w4 = Inr (s5, w5)"
    by (auto simp: sensor_signal_def split: sum.splits)
  from ret a1 a2 a3 a4 a5 have a6: "recenter_step s5 w5 = (s, w')"
    by (simp add: sensor_signal_def)
  have l1: "length s1 = nat n" using length_add_modes[of t "replicate (nat n) 0"] a1 t
    by (metis fst_conv length_replicate)
  have l2: "length s2 = nat n" using length_add_trend[of t s1 trend_amplitude w1] a2 t l1 by simp
  have l3: "length s3 = nat n" using length_add_noise[of s2 n noise_level w2] a3 l2 by simp
  have l4: "length s4 = nat n" using length_inject_outlier[OF a4] l3 by simp
  have l5: "length s5 = nat n" using length_inject_edges[OF a5] l4 by simp
  from recenter_step_props[OF a6] l5 show ?thesis by auto
qed

lemma set_dict_set: "set (dict_set d k v) \<subseteq> set d \<union> {(k, v)}"
  by (induction d) (auto split: if_splits)

lemma keys_dict_set:
  "map fst (dict_set d k v) = (if k \<in> fst ` set d then map fst d else map fst d @ [k])"
  by (induction d) force+

lemma sensor_loop_values:
  assumes step: "\<And>i w s w'. sensor_signal i m n t bf nl ta w = Inr (s, w') \<Longrightarrow> Q s"
  shows "sensor_loop i m n t bf nl ta names data w = Inr (data', w') \<Longrightarrow>
         (\<forall>v \<in> snd ` set data. Q v) \<Longrightarrow> (\<forall>v \<in> snd ` set data'. Q v)"
proof (induction names arbitrary: i data w)
  case Nil
  then show ?case by simp
next
  case (Cons sensor rest)
  from Cons.prems(1) obtain s w1 where
    ss: "sensor_signal i m n t bf nl ta w = Inr (s, w1)"
    and rest: "sensor_loop (i + 1) m n t bf nl ta rest (dict_set data sensor s) w1 = Inr (data', w')"
    by (auto split: sum.splits)
  have "\<forall>v \<in> snd ` set (dict_set data sensor s). Q v"
    using set_dict_set[of data sensor s] Cons.prems(2) step[OF ss] by fastforce
  from Cons.IH[OF rest this] show ?case .
qed

lemma sensor_loop_keys:
  "sensor_loop i m n t bf nl ta names data w = Inr (data', w') \<Longrightarrow>
     fst ` set data' = fst ` set data \<union> set names"
proof (induction names arbitrary: i data w)
  case Nil
  then show ?case by simp
next
  case (Cons sensor rest)
  from Cons.prems(1) obtain s w1 where
    rest: "sensor_loop (i + 1) m n t bf nl ta rest (dict_set data sensor s) w1 = Inr (data', w')"
    by (auto split: sum.splits)
  have "fst ` set (dict_set data sensor s) = insert sensor (fst ` set data)"
    using keys_dict_set[of data sensor s]
    by (metis (no_types, lifting) insert_absorb list.set_map set_append list.simps(15) Un_insert_right
        sup_bot.right_neutral empty_set)
  with Cons.IH[OF rest] show ?case by auto
qed

subsection \<open>When the synthesizer returns\<close>

lemma py_int_tenth: "0 \<le> n \<Longrightarrow> py_int (0.1 * real_of_int n) = n div 10"
proof -
  assume n: "0 \<le> n"
  have "0.1 * real_of_int n = real_of_int n / real_of_int 10" by simp
  then have "\<lfloor>0.1 * real_of_int n\<rfloor> = n div 10" by (simp only: floor_divide_of_int_eq)
  with n show ?thesis by (simp add: py_int_def)
qed

lemma py_int_eight_tenths: "0 \<le> n \<Longrightarrow> py_int (0.8 * real_of_int n) = (8 * n) div 10"
proof -
  assume n: "0 \<le> n"
  have "0.8 * real_of_int n = real_of_int (8 * n) / real_of_int 10" by simp
  then have "\<lfloor>0.8 * real_of_int n\<rfloor> = (8 * n) div 10" by (simp only: floor_divide_of_int_eq)
  with n show ?thesis by (simp add: py_int_def)
qed

lemma py_int_hundredth: "0 \<le> n \<Longrightarrow> py_int (0.01 * real_of_int n) = n div 100"
proof -
  assume n: "0 \<le> n"
  have "0.01 * real_of_int n = real_of_int n / real_of_int 100" by simp
  then have "\<lfloor>0.01 * real_of_int n\<rfloor> = n div 100" by (simp only: floor_divide_of_int_eq)
  with n show ?thesis by (simp add: py_int_def)
qed

lemma py_int_twentieth: "0 \<le> n \<Longrightarrow> py_int (0.05 * real_of_int n) = n div 20"
proof -
  assume n: "0 \<le> n"
  have "0.05 * real_of_int n = real_of_int n / real_of_int 20" by simp
  then have "\<lfloor>0.05 * real_of_int n\<rfloor> = n div 20" by (simp only: floor_divide_of_int_eq)
  with n show ?thesis by (simp add: py_int_def)
qed

lemma py_int_fiftieth: "0 \<le> n \<Longrightarrow> py_int (0.02 * real_of_int n) = n div 50"
proof -
  assume n: "0 \<le> n"
  have "0.02 * real_of_int n = real_of_int n / real_of_int 50" by simp
  then have "\<lfloor>0.02 * real_of_int n\<rfloor> = n div 50" by (simp only: floor_divide_of_int_eq)
  with n show ?thesis by (simp add: py_int_def)
qed

lemma np_randint_total: "lo < hi \<Longrightarrow> \<exists>v w'. np_randint lo hi w = Inr (v, w')"
  by (simp add: np_randint_def split_def Let_def)

lemma inject_outlier_total:
  assumes "20 \<le> n"
  shows "\<exists>s w'. inject_outlier n signal w = Inr (s, w')"
proof -
  have n0: "0 \<le> n" using assms by simp
  have "(n + 10) div 10 \<le> (8 * n) div 10" using assms by (intro zdiv_mono1) simp_all
  then have d1: "n div 10 < (8 * n) div 10" by simp
  have "20 div 20 \<le> n div 20" using assms by (intro zdiv_mono1) simp_all
  then have q: "0 < n div 20" by simp
  have "n div 100 = (n div 20) div 5" using zdiv_zmult2_eq[of 5 n 20] by simp
  also have "\<dots> < n div 20" using q by (intro int_div_less_self) simp_all
  finally have d2: "n div 100 < n div 20" .
  have r1: "py_int (0.1 * real_of_int n) < py_int (0.8 * real_of_int n)"
    unfolding py_int_tenth[OF n0] py_int_eight_tenths[OF n0] by (rule d1)
  have r2: "py_int (0.01 * real_of_int n) < py_int (0.05 * real_of_int n)"
    unfolding py_int_hundredth[OF n0] py_int_twentieth[OF n0] by (rule d2)
  show ?thesis
    using r1 r2 by (simp add: inject_outlier_def np_randint_def split_def Let_def)
qed

lemma iadd_slice_fits:
  "length arr = (case b of None \<Rightarrow> length xs | Some b' \<Rightarrow> slice_norm (int (length xs)) b')
      - slice_norm (int (length xs)) a \<Longrightarrow> \<exists>ys. iadd_slice a b arr xs = Inr ys"
  by (simp add: iadd_slice_def Let_def)

lemma start_edge_total:
  assumes "0 \<le> e" "e \<le> int (length signal)"
  shows "\<exists>s w'. start_edge e signal w = Inr (s, w')"
proof -
  have "\<exists>ys. iadd_slice 0 (Some e) (map (\<lambda>r. r * z) (np_linspace 2.0 0 (nat e))) signal = Inr ys" for z
    using assms by (intro iadd_slice_fits) (simp add: length_np_linspace slice_norm_def)
  from this[of "fst (np_randn (snd (np_rand w)))"] show ?thesis
    by (auto simp: start_edge_def split_def Let_def split: sum.splits)
qed

lemma end_edge_total:
  assumes "1 \<le> e" "e \<le> int (length signal)"
  shows "\<exists>s w'. end_edge e signal w = Inr (s, w')"
proof -
  have "\<exists>ys. iadd_slice (- e) None (map (\<lambda>r. r * z) (np_linspace 0 (- 1.5) (nat e))) signal = Inr ys" for z
    using assms by (intro iadd_slice_fits) (simp add: length_np_linspace slice_norm_def)
  from this[of "fst (np_randn (snd (np_rand w)))"] show ?thesis
    by (auto simp: end_edge_def split_def Let_def split: sum.splits)
qed

lemma inject_edges_total:
  assumes "50 \<le> n" "int (length signal) = n"
  shows "\<exists>s w'. inject_edges n signal w = Inr (s, w')"
proof (cases "fst (np_rand w) < 0.2")
  case False
  then show ?thesis by (simp add: inject_edges_def split_def Let_def)
next
  case True
  have n0: "0 \<le> n" using assms by simp
  have e: "py_int (0.02 * real_of_int n) = n div 50" using n0 by (rule py_int_fiftieth)
  have "50 div 50 \<le> n div 50" using assms(1) by (intro zdiv_mono1) simp_all
  then have e1: "1 \<le> n div 50" by simp
  have "n div 50 \<le> n div 1" using n0 by (intro zdiv_mono2) simp_all
  then have e2: "n div 50 \<le> n" by simp
  obtain s1 w1 where s: "start_edge (n div 50) signal (snd (np_rand w)) = Inr (s1, w1)"
    using start_edge_total[of "n div 50" signal] e1 e2 assms(2) by fastforce
  have "length s1 = length signal" using length_start_edge[OF s] .
  then obtain s2 w2 where "end_edge (n div 50) s1 w1 = Inr (s2, w2)"
    using end_edge_total[of "n div 50" s1 w1] e1 e2 assms(2) by fastforce
  with s True e show ?thesis by (simp add: inject_edges_def split_def Let_def)
qed

lemma sensor_signal_total:
  assumes n: "50 \<le> n" and t: "length t = nat n"
  shows "\<exists>s w'. sensor_signal i m n t base_frequencies noise_level trend_amplitude w = Inr (s, w')"
proof -
  obtain s1 w1 where a1: "add_modes i m t 0 base_frequencies (replicate (nat n) 0) w = (s1, w1)"
    by (cases "add_modes i m t 0 base_frequencies (replicate (nat n) 0) w")
  obtain s2 w2 where a2: "add_trend trend_amplitude t s1 w1 = (s2, w2)"
    by (cases "add_trend trend_amplitude t s1 w1")
  obtain s3 w3 where a3: "add_noise noise_level n s2 w2 = (s3, w3)"
    by (cases "add_noise noise_level n s2 w2")
  have l1: "length s1 = nat n" using length_add_modes[of t "replicate (nat n) 0"] a1 t
    by (metis fst_conv length_replicate)
  have l2: "length s2 = nat n" using length_add_trend[of t s1 trend_amplitude w1] a2 t l1 by simp
  have l3: "length s3 = nat n" using length_add_noise[of s2 n noise_level w2] a3 l2 by simp
  obtain s4 w4 where a4: "inject_outlier n s3 w3 = Inr (s4, w4)"
    using inject_outlier_total[of n s3 w3] n by auto
  have l4: "int (length s4) = n" using length_inject_outlier[OF a4] l3 n by simp
  obtain s5 w5 where a5: "inject_edges n s4 w4 = Inr (s5, w5)"
    using inject_edges_total[OF n l4, of w4] by auto
  obtain s6 w6 where a6: "recenter_step s5 w5 = (s6, w6)" by (cases "recenter_step s5 w5")
  from a1 a2 a3 a4 a5 a6 show ?thesis by (simp add: sensor_signal_def)
qed

lemma sensor_loop_total:
  assumes n: "50 \<le> n" and t: "length t = nat n"
  shows "\<exists>data' w'. sensor_loop i m n t bf nl ta names data w = Inr (data', w')"
proof (induction names arbitrary: i data w)
  case Nil
  show ?case by simp
next
  case (Cons sensor rest)
  obtain s w1 where "sensor_signal i m n t bf nl ta w = Inr (s, w1)"
    using sensor_signal_total[OF n t] by blast
  with Cons.IH[of "i + 1" "dict_set data sensor s" w1] show ?case by simp
qed

subsection \<open>What a call leaves alone, and the synthesizer as a whole\<close>

lemma env_next_raw [simp]: "env_of (snd (next_raw w)) = env_of w"
  by (simp add: next_raw_def env_of_def)

lemma env_np_randn [simp]: "env_of (snd (np_randn w)) = env_of w"
  by (simp add: np_randn_def)

lemma env_np_rand [simp]: "env_of (snd (np_rand w)) = env_of w"
  by (simp add: np_rand_def split_def Let_def)

lemma env_np_uniform [simp]: "env_of (snd (np_uniform lo hi w)) = env_of w"
  by (simp add: np_uniform_def split_def Let_def)

lemma env_np_randn_array [simp]: "env_of (snd (np_randn_array n w)) = env_of w"
  by (simp add: np_randn_array_def env_of_def)

lemma env_np_choice3 [simp]: "env_of (snd (np_choice3 a b c w)) = env_of w"
  by (simp add: np_choice3_def split_def Let_def)

lemma env_np_randint: "np_randint lo hi w = Inr (v, w') \<Longrightarrow> env_of w' = env_of w"
  by (auto simp: np_randint_def split_def Let_def split: if_splits)

lemma env_add_modes [simp]: "env_of (snd (add_modes i m t j bf signal w)) = env_of w"
  by (induction bf arbitrary: j signal w) (simp_all add: split_def Let_def)

lemma env_add_trend [simp]: "env_of (snd (add_trend a t signal w)) = env_of w"
  by (simp add: add_trend_def split_def Let_def)

lemma env_add_noise [simp]: "env_of (snd (add_noise a n signal w)) = env_of w"
  by (simp add: add_noise_def split_def Let_def)

lemma env_recenter_step [simp]: "env_of (snd (recenter_step signal w)) = env_of w"
  by (simp add: recenter_step_def split_def Let_def)

lemma env_inject_outlier:
  "inject_outlier n signal w = Inr (s, w') \<Longrightarrow> env_of w' = env_of w"
  by (auto simp: inject_outlier_def split_def Let_def dest!: env_np_randint
      split: if_splits sum.splits)

lemma env_start_edge: "start_edge e signal w = Inr (s, w') \<Longrightarrow> env_of w' = env_of w"
  by (auto simp: start_edge_def split_def Let_def split: if_splits sum.splits)

lemma env_end_edge: "end_edge e signal w = Inr (s, w') \<Longrightarrow> env_of w' = env_of w"
  by (auto simp: end_edge_def split_def Let_def split: if_splits sum.splits)

lemma env_inject_edges:
  "inject_edges n signal w = Inr (s, w') \<Longrightarrow> env_of w' = env_of w"
  by (auto simp: inject_edges_def split_def Let_def dest!: env_start_edge env_end_edge
      split: if_splits sum.splits)

lemma env_sensor_signal:
  assumes "sensor_signal i m n t bf nl ta w = Inr (s, w')"
  shows "env_of w' = env_of w"
proof -
  let ?w3 = "snd (add_noise nl n (fst (add_trend ta t (fst (add_modes i m t 0 bf (replicate (nat n) 0) w))
      (snd (add_modes i m t 0 bf (replicate (nat n) 0) w))))
      (snd (add_trend ta t (fst (add_modes i m t 0 bf (replicate (nat n) 0) w))
      (snd (add_modes i m t 0 bf (replicate (nat n) 0) w)))))"
  have e3: "env_of ?w3 = env_of w" by simp
  from assms obtain s3 s4 w4 s5 w5 where
    a4: "inject_outlier n s3 ?w3 = Inr (s4, w4)" and
    a5: "inject_edges n s4 w4 = Inr (s5, w5)" and
    a6: "recenter_step s5 w5 = (s, w')"
    by (auto simp: sensor_signal_def split_def Let_def split: sum.splits)
  have "env_of w' = env_of w5" using a6 env_recenter_step[of s5 w5] by simp
  with env_inject_edges[OF a5] env_inject_outlier[OF a4] e3 show ?thesis by simp
qed

lemma env_sensor_loop:
  "sensor_loop i m n t bf nl ta names data w = Inr (data', w') \<Longrightarrow> env_of w' = env_of w"
proof (induction names arbitrary: i data w)
  case Nil
  then show ?case by simp
next
  case (Cons sensor rest)
  from Cons.prems obtain s w1 where
    ss: "sensor_signal i m n t bf nl ta w = Inr (s, w1)"
    and rest: "sensor_loop (i + 1) m n t bf nl ta rest (dict_set data sensor s) w1 = Inr (data', w')"
    by (auto split: sum.splits)
  from Cons.IH[OF rest] env_sensor_signal[OF ss] show ?case by simp
qed

lemma in_timestamp_bounds_between:
  "in_timestamp_bounds a \<Longrightarrow> in_timestamp_bounds b \<Longrightarrow> a \<le> x \<Longrightarrow> x \<le> b
     \<Longrightarrow> in_timestamp_bounds x"
proof -
  assume a: "in_timestamp_bounds a" and b: "in_timestamp_bounds b" and ax: "a \<le> x" and xb: "x \<le> b"
  have "\<bar>x - 719162 * 86400\<bar> \<le> max \<bar>a - 719162 * 86400\<bar> \<bar>b - 719162 * 86400\<bar>"
    using ax xb by linarith
  then have "\<bar>x - 719162 * 86400\<bar> * 1000000000
      \<le> max \<bar>a - 719162 * 86400\<bar> \<bar>b - 719162 * 86400\<bar> * 1000000000"
    by (intro mult_right_mono) simp_all
  also have "\<dots> \<le> 2 ^ 63 - 1" using a b by (simp add: in_timestamp_bounds_def max_def)
  finally show ?thesis by (simp add: in_timestamp_bounds_def)
qed

lemma synth_Inr:
  assumes "generate_synthetic_acceleration_data names dur fs bf nl ta w = Inr (df, w')"
  shows "0 \<le> py_int (dur * 60 * fs)" and "fs \<noteq> 0"
    and "df_index df =
          map (\<lambda>k. to_seconds (replace_second_microsecond (clock w (ticks w)))
                   + real k * (1000 / fs / 1000))
              [0..<nat (py_int (dur * 60 * fs))]"
    and "sensor_loop 0 (length names) (py_int (dur * 60 * fs))
           (np_linspace 0 (dur * 60) (nat (py_int (dur * 60 * fs)))) bf nl ta names []
           (snd (datetime_now w)) = Inr (df_columns df, w')"
  using assms
  by (auto simp: generate_synthetic_acceleration_data_def Let_def split_def datetime_now_def
      date_range_freq_def split: if_splits sum.splits)

lemma date_range_freq_total:
  assumes fs: "0 < fs" and dur: "0 \<le> dur" and fit: "axis_fits now dur"
  shows "date_range_freq (replace_second_microsecond now) (nat (py_int (dur * 60 * fs))) (1000 / fs)
         = Inr (map (\<lambda>k. to_seconds (replace_second_microsecond now) + real k * (1000 / fs / 1000))
              [0..<nat (py_int (dur * 60 * fs))])"
proof -
  let ?s = "to_seconds (replace_second_microsecond now)"
  let ?n = "nat (py_int (dur * 60 * fs))"
  have p: "0 \<le> dur * 60 * fs" using fs dur by simp
  have nle: "real ?n \<le> dur * 60 * fs"
    using py_int_le[OF p] py_int_nonneg[OF p] by simp
  have "in_timestamp_bounds (?s + real k * (1000 / fs / 1000))" if "k < ?n" for k
  proof (rule in_timestamp_bounds_between)
    show "in_timestamp_bounds ?s" "in_timestamp_bounds (?s + dur * 60)"
      using fit by (simp_all add: axis_fits_def)
    show "?s \<le> ?s + real k * (1000 / fs / 1000)" using fs by simp
    have "real k \<le> dur * 60 * fs" using that nle by linarith
    then have "real k / fs \<le> dur * 60" using fs by (simp add: pos_divide_le_eq)
    then show "?s + real k * (1000 / fs / 1000) \<le> ?s + dur * 60" by simp
  qed
  then have "list_all in_timestamp_bounds
      (map (\<lambda>k. ?s + real k * (1000 / fs / 1000)) [0..<?n])"
    by (simp add: list_all_iff)
  moreover have "in_timestamp_bounds ?s" using fit by (simp add: axis_fits_def)
  ultimately show ?thesis by (simp add: date_range_freq_def Let_def)
qed

lemma synth_total:
  assumes n: "50 \<le> py_int (dur * 60 * fs)" and fs: "0 < fs" and dur: "0 \<le> dur"
    and fit: "axis_fits (clock w (ticks w)) dur"
  shows "\<exists>df w'. generate_synthetic_acceleration_data names dur fs bf nl ta w = Inr (df, w')"
proof -
  let ?n = "py_int (dur * 60 * fs)"
  have "length (np_linspace 0 (dur * 60) (nat ?n)) = nat ?n" by (rule length_np_linspace)
  from sensor_loop_total[OF n this]
  obtain data w' where
    "sensor_loop 0 (length names) ?n (np_linspace 0 (dur * 60) (nat ?n)) bf nl ta names []
       (snd (datetime_now w)) = Inr (data, w')" by blast
  with date_range_freq_total[OF fs dur fit] n fs show ?thesis
    by (simp add: generate_synthetic_acceleration_data_def Let_def split_def datetime_now_def)
qed

subsection \<open>The table the synthesizer returns\<close>

lemma midnight_fits: "axis_fits (midnight_clock k) 25" "axis_fits (midnight_clock k) 1"
  by (simp_all add: axis_fits_def midnight_clock_def mk_datetime_def ymd2ord_def
      days_before_year_def days_before_month_def DAYS_BEFORE_MONTH_def is_leap_def Let_def
      replace_second_microsecond_def to_seconds_def in_timestamp_bounds_def)

lemma synth_columns:
  assumes ret: "generate_synthetic_acceleration_data names dur fs bf nl ta w = Inr (df, w')"
  shows "\<forall>v \<in> snd ` set (df_columns df).
           length v = nat (py_int (dur * 60 * fs)) \<and>
           (0 < py_int (dur * 60 * fs) \<longrightarrow> - 1.05 \<le> np_mean v \<and> np_mean v < - 0.95)"
proof -
  let ?n = "py_int (dur * 60 * fs)"
  let ?t = "np_linspace 0 (dur * 60) (nat ?n)"
  have t: "length ?t = nat ?n" by (rule length_np_linspace)
  have step: "\<And>i w s w'. sensor_signal i (length names) ?n ?t bf nl ta w = Inr (s, w') \<Longrightarrow>
       length s = nat ?n \<and> (0 < ?n \<longrightarrow> - 1.05 \<le> np_mean s \<and> np_mean s < - 0.95)"
    using sensor_signal_props[OF _ t] by blast
  have "\<forall>v \<in> snd ` set ([] :: (string \<times> real list) list).
      length v = nat ?n \<and> (0 < ?n \<longrightarrow> - 1.05 \<le> np_mean v \<and> np_mean v < - 0.95)" by simp
  from sensor_loop_values[where Q = "\<lambda>v. length v = nat ?n \<and> (0 < ?n \<longrightarrow> - 1.05 \<le> np_mean v \<and> np_mean v < - 0.95)",
      OF step synth_Inr(4)[OF ret] this]
  show ?thesis .
qed


lemma synth_call_returns: "\<exists>df w'. synth_call outlier_world = Inr (df, w')"
proof -
  have "py_int (1 * 60 * 10) = 600" by (simp add: py_int_def)
  then have "50 \<le> py_int (1 * 60 * 10)" by simp
  moreover have "axis_fits (clock outlier_world (ticks outlier_world)) 1"
    by (simp add: outlier_world_def midnight_fits)
  ultimately show ?thesis unfolding synth_call_def by (intro synth_total) simp_all
qed


lemma nth_recenter:
  "k < length signal \<Longrightarrow> recenter signal c ! k = signal ! k + (c - np_mean signal)"
  by (simp add: recenter_def)

text \<open>
  Claim C7, over the reals. In every table the synthesizer returns with at least one
  sample per sensor, the mean of every column lies in \<open>[-1.05, -0.95)\<close>, whatever the
  noise, trend, outlier and edge draws were. The re-centering step itself keeps the
  length, adds one constant to every sample (so differences between samples are kept)
  and leaves a non-empty signal with its mean in the band.
\<close>

theorem recentered_mean_in_band:
  "(generate_synthetic_acceleration_data names dur fs bf nl ta w = Inr (df, w') \<longrightarrow>
      0 < py_int (dur * 60 * fs) \<longrightarrow>
      (\<forall>samples \<in> snd ` set (df_columns df).
          - 1.05 \<le> np_mean samples \<and> np_mean samples < - 0.95)) \<and>
   (recenter_step signal w = (s, w'') \<longrightarrow>
      (signal \<noteq> [] \<longrightarrow> - 1.05 \<le> np_mean s \<and> np_mean s < - 0.95) \<and>
      length s = length signal \<and>
      (\<exists>d. \<forall>k < length signal. s ! k = signal ! k + d) \<and>
      (\<forall>j < length signal. \<forall>k < length signal. s ! j - s ! k = signal ! j - signal ! k))"
proof (intro conjI impI)
  assume ret: "generate_synthetic_acceleration_data names dur fs bf nl ta w = Inr (df, w')"
    and pos: "0 < py_int (dur * 60 * fs)"
  from synth_columns[OF ret] pos
  show "\<forall>samples \<in> snd ` set (df_columns df). - 1.05 \<le> np_mean samples \<and> np_mean samples < - 0.95"
    by simp
next
  assume a: "recenter_step signal w = (s, w'')" and ne: "signal \<noteq> []"
  from recenter_step_props[OF a] ne show "- 1.05 \<le> np_mean s" "np_mean s < - 0.95" by simp_all
next
  assume a: "recenter_step signal w = (s, w'')"
  from recenter_step_props[OF a] show "length s = length signal" by simp
  from a have s: "s = recenter signal (fst (np_uniform (- 1.05) (- 0.95) w))"
    by (auto simp: recenter_step_def split_def Let_def)
  show "\<exists>d. \<forall>k < length signal. s ! k = signal ! k + d"
    unfolding s using nth_recenter by blast
  show "\<forall>j < length signal. \<forall>k < length signal. s ! j - s ! k = signal ! j - signal ! k"
    unfolding s by (simp add: nth_recenter)
qed

theorem recentered_mean_in_band_witness:
  "(\<exists>df w'. synth_call outlier_world = Inr (df, w') \<and> 0 < py_int (1 * 60 * 10) \<and>
      list_all (\<lambda>samples. - 1.05 \<le> np_mean samples \<and> np_mean samples < - 0.95)
        (map snd (df_columns df))) \<and>
   (\<exists>s w''. recenter_step [1, 2, 6] outlier_world = (s, w'') \<and> [1, 2, 6] \<noteq> ([] :: real list) \<and>
      - 1.05 \<le> np_mean s \<and> np_mean s < - 0.95 \<and> length s = 3 \<and>
      s ! 2 - s ! 0 = 5)"
proof -
  from synth_call_returns obtain df w' where ret: "synth_call outlier_world = Inr (df, w')"
    by blast
  have pos: "0 < py_int (1 * 60 * 10)" by (simp add: py_int_def)
  obtain s w'' where r: "recenter_step [1, 2, 6] outlier_world = (s, w'')"
    by (cases "recenter_step [1, 2, 6] outlier_world")
  from recentered_mean_in_band[of "[''s1'', ''s2'']" 1 10 "[5, 12, 18, 25, 35]" "0.05" "0.02"
      outlier_world df w' "[1, 2, 6]" s w''] ret pos r
  have A: "\<forall>samples \<in> snd ` set (df_columns df). - 1.05 \<le> np_mean samples \<and> np_mean samples < - 0.95"
    and B: "- 1.05 \<le> np_mean s \<and> np_mean s < - 0.95" "length s = 3"
    and C: "\<forall>j < length [1, 2, 6::real]. \<forall>k < length [1, 2, 6::real]. s ! j - s ! k = [1, 2, 6] ! j - [1, 2, 6] ! k"
    unfolding synth_call_def by auto
  from C have "s ! 2 - s ! 0 = 5" by simp
  with A B ret pos r show ?thesis by (auto simp: list_all_iff)
qed

subsection \<open>The synthesizer and the random source\<close>

lemma rng_next_raw [simp]:
  "next_raw (rng_only w) = (fst (next_raw w), rng_only (snd (next_raw w)))"
  by (simp add: next_raw_def rng_only_def)

lemma rng_np_randn [simp]:
  "np_randn (rng_only w) = (fst (np_randn w), rng_only (snd (np_randn w)))"
  by (simp add: np_randn_def)

lemma rng_np_rand [simp]:
  "np_rand (rng_only w) = (fst (np_rand w), rng_only (snd (np_rand w)))"
  by (simp add: np_rand_def split_def Let_def)

lemma rng_np_uniform [simp]:
  "np_uniform lo hi (rng_only w) = (fst (np_uniform lo hi w), rng_only (snd (np_uniform lo hi w)))"
  by (simp add: np_uniform_def split_def Let_def)

lemma rng_np_randn_array [simp]:
  "np_randn_array n (rng_only w) = (fst (np_randn_array n w), rng_only (snd (np_randn_array n w)))"
  by (simp add: np_randn_array_def rng_only_def)

lemma rng_np_randint [simp]:
  "np_randint lo hi (rng_only w) = map_sum id (map_prod id rng_only) (np_randint lo hi w)"
  by (simp add: np_randint_def split_def Let_def)

lemma rng_add_modes [simp]:
  "add_modes i m t j bf signal (rng_only w) =
     (fst (add_modes i m t j bf signal w), rng_only (snd (add_modes i m t j bf signal w)))"
  by (induction bf arbitrary: j signal w) (simp_all add: split_def Let_def)

lemma rng_add_trend [simp]:
  "add_trend a t signal (rng_only w) =
     (fst (add_trend a t signal w), rng_only (snd (add_trend a t signal w)))"
  by (simp add: add_trend_def split_def Let_def)

lemma rng_add_noise [simp]:
  "add_noise a n signal (rng_only w) =
     (fst (add_noise a n signal w), rng_only (snd (add_noise a n signal w)))"
  by (simp add: add_noise_def split_def Let_def)

lemma rng_recenter_step [simp]:
  "recenter_step signal (rng_only w) =
     (fst (recenter_step signal w), rng_only (snd (recenter_step signal w)))"
  by (simp add: recenter_step_def split_def Let_def)

lemma rng_inject_outlier [simp]:
  "inject_outlier n signal (rng_only w) =
     map_sum id (map_prod id rng_only) (inject_outlier n signal w)"
  by (simp add: inject_outlier_def split_def Let_def split: sum.splits)

lemma rng_start_edge [simp]:
  "start_edge e signal (rng_only w) = map_sum id (map_prod id rng_only) (start_edge e signal w)"
  by (simp add: start_edge_def split_def Let_def split: sum.splits)

lemma rng_end_edge [simp]:
  "end_edge e signal (rng_only w) = map_sum id (map_prod id rng_only) (end_edge e signal w)"
  by (simp add: end_edge_def split_def Let_def split: sum.splits)

lemma rng_inject_edges [simp]:
  "inject_edges n signal (rng_only w) =
     map_sum id (map_prod id rng_only) (inject_edges n signal w)"
  by (simp add: inject_edges_def split_def Let_def split: sum.splits)

lemma rng_sensor_signal [simp]:
  "sensor_signal i m n t bf nl ta (rng_only w) =
     map_sum id (map_prod id rng_only) (sensor_signal i m n t bf nl ta w)"
proof -
  let ?s3 = "fst (add_noise nl n (fst (add_trend ta t (fst (add_modes i m t 0 bf (replicate (nat n) 0) w))
      (snd (add_modes i m t 0 bf (replicate (nat n) 0) w))))
      (snd (add_trend ta t (fst (add_modes i m t 0 bf (replicate (nat n) 0) w))
      (snd (add_modes i m t 0 bf (replicate (nat n) 0) w)))))"
  let ?w3 = "snd (add_noise nl n (fst (add_trend ta t (fst (add_modes i m t 0 bf (replicate (nat n) 0) w))
      (snd (add_modes i m t 0 bf (replicate (nat n) 0) w))))
      (snd (add_trend ta t (fst (add_modes i m t 0 bf (replicate (nat n) 0) w))
      (snd (add_modes i m t 0 bf (replicate (nat n) 0) w)))))"
  have L: "sensor_signal i m n t bf nl ta (rng_only w) =
      (case inject_outlier n ?s3 (rng_only ?w3) of Inl e \<Rightarrow> Inl e
       | Inr (s4, w4) \<Rightarrow> (case inject_edges n s4 w4 of Inl e \<Rightarrow> Inl e
          | Inr (s5, w5) \<Rightarrow> Inr (recenter_step s5 w5)))"
    by (simp add: sensor_signal_def split_def Let_def)
  have R: "sensor_signal i m n t bf nl ta w =
      (case inject_outlier n ?s3 ?w3 of Inl e \<Rightarrow> Inl e
       | Inr (s4, w4) \<Rightarrow> (case inject_edges n s4 w4 of Inl e \<Rightarrow> Inl e
          | Inr (s5, w5) \<Rightarrow> Inr (recenter_step s5 w5)))"
    by (simp add: sensor_signal_def split_def Let_def)
  show ?thesis
  proof (cases "inject_outlier n ?s3 ?w3")
    case (Inl e)
    then show ?thesis unfolding L R by simp
  next
    case (Inr p)
    obtain s4 w4 where p: "p = (s4, w4)" by (cases p)
    show ?thesis
    proof (cases "inject_edges n s4 w4")
      case (Inl e)
      with Inr p show ?thesis unfolding L R by simp
    next
      case r2: (Inr q)
      obtain s5 w5 where q: "q = (s5, w5)" by (cases q)
      from Inr p r2 q show ?thesis unfolding L R by (simp add: map_prod_def split_def)
    qed
  qed
qed

lemma rng_sensor_loop:
  "sensor_loop i m n t bf nl ta names data (rng_only w) =
     map_sum id (map_prod id rng_only) (sensor_loop i m n t bf nl ta names data w)"
proof (induction names arbitrary: i data w)
  case Nil
  show ?case by simp
next
  case (Cons sensor rest)
  show ?case
  proof (cases "sensor_signal i m n t bf nl ta w")
    case (Inl e)
    then show ?thesis by simp
  next
    case (Inr p)
    obtain s w1 where p: "p = (s, w1)" by (cases p)
    from Inr p Cons.IH[of "i + 1" "dict_set data sensor s" w1] show ?thesis by simp
  qed
qed

lemma rng_only_eq:
  "tape w1 = tape w2 \<Longrightarrow> drawn w1 = drawn w2 \<Longrightarrow> rng_only w1 = rng_only w2"
  by (simp add: rng_only_def)

lemma sensor_loop_same_rng:
  assumes "tape w1 = tape w2" "drawn w1 = drawn w2"
  shows "map_sum id fst (sensor_loop i m n t bf nl ta names data w1) =
         map_sum id fst (sensor_loop i m n t bf nl ta names data w2)"
proof -
  have "map_sum id fst (sensor_loop i m n t bf nl ta names data w) =
        map_sum id fst (sensor_loop i m n t bf nl ta names data (rng_only w))" for w
    by (cases "sensor_loop i m n t bf nl ta names data w") (auto simp: rng_sensor_loop)
  from this[of w1] this[of w2] rng_only_eq[OF assms] show ?thesis by simp
qed

subsection \<open>Determinism of the synthesizer\<close>

lemma synth_outcome:
  "map_sum id fst (generate_synthetic_acceleration_data names dur fs bf nl ta w) =
     (if py_int (dur * 60 * fs) < 0 then Inl ValueError
      else if fs = 0 then Inl ZeroDivisionError
      else case date_range_freq (replace_second_microsecond (clock w (ticks w)))
                  (nat (py_int (dur * 60 * fs))) (1000 / fs) of
             Inl e \<Rightarrow> Inl e
           | Inr time_index \<Rightarrow>
               (case map_sum id fst
                       (sensor_loop 0 (length names) (py_int (dur * 60 * fs))
                          (np_linspace 0 (dur * 60) (nat (py_int (dur * 60 * fs))))
                          bf nl ta names [] (snd (datetime_now w))) of
                  Inl e \<Rightarrow> Inl e
                | Inr data \<Rightarrow> Inr \<lparr>df_index = time_index, df_columns = data\<rparr>))"
  by (simp add: generate_synthetic_acceleration_data_def Let_def split_def datetime_now_def
      split: sum.splits)

text \<open>
  Claim C2, as the code has it. The synthesizer reads the wall clock as well as its
  parameters and the random source. Two calls with the same parameters and the same
  random source (tape and position) that read clocks of the same minute have the same
  outcome, the same table or the same exception; whatever the clocks read, two calls
  that both return have the same sample columns.
\<close>

theorem synthesizer_deterministic:
  assumes tp: "tape w1 = tape w2" and dr: "drawn w1 = drawn w2"
  shows "(replace_second_microsecond (clock w1 (ticks w1)) =
            replace_second_microsecond (clock w2 (ticks w2)) \<longrightarrow>
          map_sum id fst (generate_synthetic_acceleration_data names dur fs bf nl ta w1) =
          map_sum id fst (generate_synthetic_acceleration_data names dur fs bf nl ta w2)) \<and>
         (\<forall>df1 w1' df2 w2'.
            generate_synthetic_acceleration_data names dur fs bf nl ta w1 = Inr (df1, w1') \<and>
            generate_synthetic_acceleration_data names dur fs bf nl ta w2 = Inr (df2, w2')
            \<longrightarrow> df_columns df1 = df_columns df2)"
proof -
  let ?n = "py_int (dur * 60 * fs)"
  let ?L = "\<lambda>w. sensor_loop 0 (length names) ?n (np_linspace 0 (dur * 60) (nat ?n))
                 bf nl ta names [] (snd (datetime_now w))"
  have "tape (snd (datetime_now w1)) = tape (snd (datetime_now w2))"
    "drawn (snd (datetime_now w1)) = drawn (snd (datetime_now w2))"
    using tp dr by (simp_all add: datetime_now_def)
  from sensor_loop_same_rng[OF this]
  have loop: "map_sum id fst (?L w1) = map_sum id fst (?L w2)" .
  have one: "map_sum id fst (generate_synthetic_acceleration_data names dur fs bf nl ta w1) =
          map_sum id fst (generate_synthetic_acceleration_data names dur fs bf nl ta w2)"
    if "replace_second_microsecond (clock w1 (ticks w1)) =
            replace_second_microsecond (clock w2 (ticks w2))"
    unfolding synth_outcome loop that ..
  have two: "df_columns df1 = df_columns df2"
    if r1: "generate_synthetic_acceleration_data names dur fs bf nl ta w1 = Inr (df1, w1')"
      and r2: "generate_synthetic_acceleration_data names dur fs bf nl ta w2 = Inr (df2, w2')"
    for df1 w1' df2 w2'
  proof -
    from synth_Inr(4)[OF r1] have "map_sum id fst (?L w1) = Inr (df_columns df1)" by simp
    moreover from synth_Inr(4)[OF r2] have "map_sum id fst (?L w2) = Inr (df_columns df2)" by simp
    ultimately show ?thesis using loop by simp
  qed
  from one two show ?thesis by blast
qed

lemma world_clocks:
  "clock outlier_world k = mk_datetime 2024 1 1 0 0 0"
  "clock half_minute_world k = mk_datetime 2024 1 1 0 0 30"
  "clock later_world k = mk_datetime 2024 1 1 0 1 0"
  by (simp_all add: outlier_world_def half_minute_world_def later_world_def midnight_clock_def)

lemma world_clock_values:
  "mk_datetime 2024 1 1 0 0 0 = 63839664000000000"
  "mk_datetime 2024 1 1 0 0 30 = 63839664030000000"
  "mk_datetime 2024 1 1 0 1 0 = 63839664060000000"
  by (simp_all add: mk_datetime_def ymd2ord_def days_before_year_def days_before_month_def
      DAYS_BEFORE_MONTH_def is_leap_def Let_def)

lemma later_fits: "axis_fits (clock later_world k) 1" "axis_fits (clock half_minute_world k) 1"
  by (simp_all add: world_clocks world_clock_values axis_fits_def
      replace_second_microsecond_def to_seconds_def in_timestamp_bounds_def)

lemma synth_call_later_returns: "\<exists>df w'. synth_call later_world = Inr (df, w')"
proof -
  have "py_int (1 * 60 * 10) = 600" by (simp add: py_int_def)
  then have "50 \<le> py_int (1 * 60 * 10)" by simp
  then show ?thesis unfolding synth_call_def using later_fits(1)
    by (intro synth_total) simp_all
qed

text \<open>
  The claim as the spec words it fails: the same parameters and the same random source
  under clocks one minute apart give tables whose time axes differ.
\<close>

theorem synthesizer_deterministic_counterexample:
  "tape outlier_world = tape later_world \<and> drawn outlier_world = drawn later_world \<and>
   (\<exists>df1 w1 df2 w2. synth_call outlier_world = Inr (df1, w1) \<and>
      synth_call later_world = Inr (df2, w2) \<and> df_index df1 \<noteq> df_index df2)"
proof -
  from synth_call_returns obtain df1 w1 where r1: "synth_call outlier_world = Inr (df1, w1)"
    by blast
  from synth_call_later_returns obtain df2 w2 where r2: "synth_call later_world = Inr (df2, w2)"
    by blast
  have i1: "df_index df1 ! 0 = 63839664000"
    using synth_Inr(3)[OF r1[unfolded synth_call_def]]
    by (simp add: py_int_def world_clocks world_clock_values replace_second_microsecond_def
        to_seconds_def)
  have i2: "df_index df2 ! 0 = 63839664060"
    using synth_Inr(3)[OF r2[unfolded synth_call_def]]
    by (simp add: py_int_def world_clocks world_clock_values replace_second_microsecond_def
        to_seconds_def)
  from i1 i2 have "df_index df1 \<noteq> df_index df2" by auto
  with r1 r2 show ?thesis by (auto simp: later_world_def)
qed

theorem synthesizer_deterministic_witness:
  "tape outlier_world = tape half_minute_world \<and> drawn outlier_world = drawn half_minute_world \<and>
   replace_second_microsecond (clock outlier_world (ticks outlier_world)) =
     replace_second_microsecond (clock half_minute_world (ticks half_minute_world)) \<and>
   map_sum id fst (synth_call outlier_world) = map_sum id fst (synth_call half_minute_world) \<and>
   (\<exists>df w'. synth_call outlier_world = Inr (df, w'))"
proof -
  have a: "tape outlier_world = tape half_minute_world"
    and b: "drawn outlier_world = drawn half_minute_world"
    by (simp_all add: half_minute_world_def)
  have c: "replace_second_microsecond (clock outlier_world (ticks outlier_world)) =
     replace_second_microsecond (clock half_minute_world (ticks half_minute_world))"
    by (simp add: world_clocks world_clock_values replace_second_microsecond_def)
  from synthesizer_deterministic[OF a b, of "[''s1'', ''s2'']" 1 10 "[5, 12, 18, 25, 35]" "0.05" "0.02"]
    a b c synth_call_returns
  show ?thesis unfolding synth_call_def by blast
qed

subsection \<open>One segment\<close>

lemma env_of_eq:
  "env_of w' = env_of w \<longleftrightarrow>
     tape w' = tape w \<and> clock w' = clock w \<and> ticks w' = ticks w \<and> files w' = files w"
  by (auto simp: env_of_def)

lemma synth_env:
  assumes "generate_synthetic_acceleration_data names dur fs bf nl ta w = Inr (df, w')"
  shows "tape w' = tape w \<and> clock w' = clock w \<and> files w' = files w \<and> ticks w' = Suc (ticks w)"
  using env_sensor_loop[OF synth_Inr(4)[OF assms]]
  by (simp add: env_of_eq datetime_now_def)

lemma np_randn_env:
  "tape (snd (np_randn w)) = tape w" "clock (snd (np_randn w)) = clock w"
  "ticks (snd (np_randn w)) = ticks w" "files (snd (np_randn w)) = files w"
  using env_of_eq[THEN iffD1, OF env_np_randn, of w] by simp_all

lemma np_choice3_env:
  "tape (snd (np_choice3 a b c w)) = tape w" "clock (snd (np_choice3 a b c w)) = clock w"
  "ticks (snd (np_choice3 a b c w)) = ticks w" "files (snd (np_choice3 a b c w)) = files w"
  using env_of_eq[THEN iffD1, OF env_np_choice3, of a b c w] by simp_all

lemma build_segment_Inr:
  assumes "build_segment names fs c s w = Inr (fn, df, md, w')"
  shows "\<exists>st en df0 w2 w3.
           segment_times s = Inr (st, en) \<and>
           generate_synthetic_acceleration_data names 25 fs
             [4 + real_of_int s * 0.1, 12 + real_of_int s * 0.05, 18 + real_of_int s * 0.02, 25, 35]
             (0.05 + 0.01 * fst (np_randn w))
             (0.02 + 0.005 * fst (np_randn (snd (np_randn w)))) w2 = Inr (df0, w3) \<and>
           w2 = snd (np_randn (snd (np_randn w))) \<and>
           date_range_span st en (length (df_index df0)) = Inr (df_index df) \<and>
           df_columns df = df_columns df0 \<and>
           fn = segment_filename c s st en \<and>
           md_segment_number md = s \<and> md_sampling_frequency md = fs \<and>
           md_start_time md = isoformat st \<and> md_end_time md = isoformat en \<and>
           md_synthetic md \<and> md_tag_columns md = [] \<and>
           md_data_quality md \<in> {''good'', ''fair'', ''excellent''} \<and>
           w' = snd (np_choice3 ''good'' ''fair'' ''excellent'' (snd (datetime_now w3)))"
  using assms
  by (auto simp: build_segment_def split_def Let_def np_choice3_def split: sum.splits)

lemma build_segment_env:
  assumes "build_segment names fs c s w = Inr (fn, df, md, w')"
  shows "tape w' = tape w \<and> clock w' = clock w \<and> files w' = files w \<and> ticks w' = ticks w + 2"
proof -
  from build_segment_Inr[OF assms] obtain df0 w3 where
    sy: "generate_synthetic_acceleration_data names 25 fs
             [4 + real_of_int s * 0.1, 12 + real_of_int s * 0.05, 18 + real_of_int s * 0.02, 25, 35]
             (0.05 + 0.01 * fst (np_randn w))
             (0.02 + 0.005 * fst (np_randn (snd (np_randn w))))
             (snd (np_randn (snd (np_randn w)))) = Inr (df0, w3)"
    and w': "w' = snd (np_choice3 ''good'' ''fair'' ''excellent'' (snd (datetime_now w3)))"
    by blast
  from synth_env[OF sy] show ?thesis
    by (simp add: w' np_choice3_env np_randn_env datetime_now_def)
qed

subsection \<open>The files of a run\<close>

lemma segment_file_Some:
  "segment_times s = Inr (st, en) \<Longrightarrow> segment_file c s = Some (segment_filename c s st en)"
  by (simp add: segment_file_def)

lemma segment_file_inj:
  "segment_file c s = Some f \<Longrightarrow> segment_file c s' = Some f \<Longrightarrow> s = s'"
  by (auto simp: segment_file_def split: sum.splits dest: segment_filename_inj)

lemma generate_segment_Inr:
  assumes "generate_segment names fs dir c s w = Inr w'"
  shows "\<exists>fn df md. segment_file c s = Some fn \<and> segment_record names fs c s fn df md \<and>
           files w' = (files w)((dir, fn) \<mapsto> Pickle df md) \<and>
           tape w' = tape w \<and> clock w' = clock w \<and> ticks w' = ticks w + 2"
proof -
  from assms obtain fn df md w1 where
    b: "build_segment names fs c s w = Inr (fn, df, md, w1)"
    and w': "w' = create_sample_pickle_file (dir, fn) df md w1"
    by (auto simp: generate_segment_def split: sum.splits)
  from build_segment_Inr[OF b] obtain st en where
    "segment_times s = Inr (st, en)" "fn = segment_filename c s st en" by blast
  then have f: "segment_file c s = Some fn" by (simp add: segment_file_def)
  have r: "segment_record names fs c s fn df md" using b by (auto simp: segment_record_def)
  from build_segment_env[OF b] f r show ?thesis
    by (intro exI[of _ fn] exI[of _ df] exI[of _ md])
       (simp add: w' create_sample_pickle_file_def)
qed

lemma segment_loop_Inr:
  "segment_loop names fs dir c segs w = Inr w' \<Longrightarrow> distinct segs \<Longrightarrow>
     tape w' = tape w \<and> clock w' = clock w \<and> ticks w' = ticks w + 2 * length segs \<and>
     (\<forall>d f. (d \<noteq> dir \<or> (\<forall>s \<in> set segs. segment_file c s \<noteq> Some f)) \<longrightarrow>
            files w' (d, f) = files w (d, f)) \<and>
     (\<forall>s \<in> set segs. \<exists>fn df md. segment_file c s = Some fn \<and>
            files w' (dir, fn) = Some (Pickle df md) \<and> segment_record names fs c s fn df md)"
proof (induction segs arbitrary: w)
  case Nil
  then show ?case by simp
next
  case (Cons s rest)
  from Cons.prems(1) obtain w1 where
    g: "generate_segment names fs dir c s w = Inr w1"
    and l: "segment_loop names fs dir c rest w1 = Inr w'"
    by (auto split: sum.splits)
  from Cons.prems(2) have dr: "distinct rest" and sn: "s \<notin> set rest" by simp_all
  from generate_segment_Inr[OF g] obtain fn df md where
    f: "segment_file c s = Some fn" and rec: "segment_record names fs c s fn df md"
    and fw1: "files w1 = (files w)((dir, fn) \<mapsto> Pickle df md)"
    and e1: "tape w1 = tape w" "clock w1 = clock w" "ticks w1 = ticks w + 2"
    by blast
  note IH = Cons.IH[OF l dr]
  have frame: "files w' (d, f') = files w1 (d, f')"
    if "d \<noteq> dir \<or> (\<forall>s' \<in> set rest. segment_file c s' \<noteq> Some f')" for d f'
    using IH that by blast
  have "\<forall>s' \<in> set rest. segment_file c s' \<noteq> Some fn"
    using segment_file_inj[OF f] sn by blast
  then have keep: "files w' (dir, fn) = Some (Pickle df md)"
    using frame[of dir fn] fw1 by simp
  have A: "tape w' = tape w \<and> clock w' = clock w \<and> ticks w' = ticks w + 2 * length (s # rest)"
    using IH e1 by simp
  have B: "\<forall>d f'. (d \<noteq> dir \<or> (\<forall>s' \<in> set (s # rest). segment_file c s' \<noteq> Some f')) \<longrightarrow>
            files w' (d, f') = files w (d, f')"
  proof (intro allI impI)
    fix d f' assume h: "d \<noteq> dir \<or> (\<forall>s' \<in> set (s # rest). segment_file c s' \<noteq> Some f')"
    then have "files w' (d, f') = files w1 (d, f')" by (intro frame) auto
    moreover have "(d, f') \<noteq> (dir, fn)" using h f by auto
    ultimately show "files w' (d, f') = files w (d, f')" using fw1 by auto
  qed
  have C: "\<forall>s' \<in> set (s # rest). \<exists>fn df md. segment_file c s' = Some fn \<and>
            files w' (dir, fn) = Some (Pickle df md) \<and> segment_record names fs c s' fn df md"
    using IH f keep rec by auto
  from A B C show ?case by blast
qed

lemma distinct_upto: "distinct [i..j]"
  by simp

lemma last_segment_filename: "last (segment_filename c s st en) = CHR ''e''"
  by (simp add: segment_filename_def)

lemma segment_file_not_summary: "segment_file c s \<noteq> Some ''dataset_summary.yaml''"
proof
  assume "segment_file c s = Some ''dataset_summary.yaml''"
  then obtain st en where "segment_filename c s st en = ''dataset_summary.yaml''"
    by (auto simp: segment_file_def split: sum.splits)
  then have "last (segment_filename c s st en) = last ''dataset_summary.yaml''" by simp
  then show False by (simp add: last_segment_filename)
qed

lemma generate_sample_dataset_Inr:
  assumes "generate_sample_dataset cfg dir n c w = Inr (p, w')"
  shows "p = dir \<and>
     files w' (dir, ''dataset_summary.yaml'') =
       Some (Yaml (make_summary (resolve_sensor_names cfg) (resolve_fs cfg) n c
                     (clock w (ticks w + 2 * nat n)))) \<and>
     (\<forall>d f. (d \<noteq> dir \<or> (f \<noteq> ''dataset_summary.yaml'' \<and>
                 (\<forall>s \<in> {1..n}. segment_file c s \<noteq> Some f))) \<longrightarrow>
            files w' (d, f) = files w (d, f)) \<and>
     (\<forall>s \<in> {1..n}. \<exists>fn df md. segment_file c s = Some fn \<and>
            files w' (dir, fn) = Some (Pickle df md) \<and>
            segment_record (resolve_sensor_names cfg) (resolve_fs cfg) c s fn df md) \<and>
     tape w' = tape w \<and> clock w' = clock w \<and> ticks w' = ticks w + 2 * nat n + 1"
proof -
  let ?names = "resolve_sensor_names cfg" and ?fs = "resolve_fs cfg"
  from assms obtain w1 where
    l: "segment_loop ?names ?fs dir c [1..n] w = Inr w1"
    and p: "p = dir"
    and w': "w' = (snd (datetime_now w1))\<lparr>files := (files (snd (datetime_now w1)))
        ((dir, ''dataset_summary.yaml'') \<mapsto>
          Yaml (make_summary ?names ?fs n c (fst (datetime_now w1))))\<rparr>"
    by (auto simp: generate_sample_dataset_def Let_def split_def split: sum.splits)
  note L = segment_loop_Inr[OF l distinct_upto]
  have len: "length [1..n] = nat n" by simp
  have A: "files w' (dir, ''dataset_summary.yaml'') =
       Some (Yaml (make_summary ?names ?fs n c (clock w (ticks w + 2 * nat n))))"
    using L by (simp add: w' datetime_now_def)
  have B: "\<forall>d f. (d \<noteq> dir \<or> (f \<noteq> ''dataset_summary.yaml'' \<and>
                 (\<forall>s \<in> {1..n}. segment_file c s \<noteq> Some f))) \<longrightarrow>
            files w' (d, f) = files w (d, f)"
  proof (intro allI impI)
    fix d f assume h: "d \<noteq> dir \<or> (f \<noteq> ''dataset_summary.yaml'' \<and>
                 (\<forall>s \<in> {1..n}. segment_file c s \<noteq> Some f))"
    then have "(d, f) \<noteq> (dir, ''dataset_summary.yaml'')" by auto
    then have "files w' (d, f) = files w1 (d, f)" by (auto simp: w' datetime_now_def)
    also have "\<dots> = files w (d, f)" using L h by auto
    finally show "files w' (d, f) = files w (d, f)" .
  qed
  have C: "\<forall>s \<in> {1..n}. \<exists>fn df md. segment_file c s = Some fn \<and>
            files w' (dir, fn) = Some (Pickle df md) \<and> segment_record ?names ?fs c s fn df md"
  proof
    fix s assume "s \<in> {1..n}"
    then have "s \<in> set [1..n]" by simp
    with L obtain fn df md where f: "segment_file c s = Some fn"
      and k: "files w1 (dir, fn) = Some (Pickle df md)"
      and r: "segment_record ?names ?fs c s fn df md" by blast
    have "fn \<noteq> ''dataset_summary.yaml''" using f segment_file_not_summary by auto
    then have "files w' (dir, fn) = files w1 (dir, fn)" by (simp add: w' datetime_now_def)
    with f k r show "\<exists>fn df md. segment_file c s = Some fn \<and>
            files w' (dir, fn) = Some (Pickle df md) \<and> segment_record ?names ?fs c s fn df md"
      by auto
  qed
  have D: "tape w' = tape w \<and> clock w' = clock w \<and> ticks w' = ticks w + 2 * nat n + 1"
    using L by (simp add: w' datetime_now_def)
  from p A B C D show ?thesis by blast
qed

subsection \<open>When a run returns, and evenly spaced axes\<close>

lemma segment_times_seconds:
  assumes "segment_times s = Inr (st, en)"
  shows "to_seconds st = 63839696400 + real_of_int (s - 1) * 1800"
    and "to_seconds en = to_seconds st + 1500"
proof -
  from segment_times_Inr[OF assms]
  have st: "st = 63839696400000000 + (s - 1) * 30 * 60000000" and en: "en = st + 25 * 60000000"
    by (simp_all add: mk_anchor minutes_def)
  show "to_seconds st = 63839696400 + real_of_int (s - 1) * 1800"
    by (simp add: st to_seconds_def field_simps)
  show "to_seconds en = to_seconds st + 1500"
    by (simp add: en to_seconds_def field_simps)
qed

lemma segment_times_in_bounds:
  assumes s: "1 \<le> s" "s \<le> 4177373" and t: "segment_times s = Inr (st, en)"
  shows "in_timestamp_bounds (to_seconds st)" and "in_timestamp_bounds (to_seconds en)"
proof -
  have lo: "in_timestamp_bounds 63839696400"
    by (simp add: in_timestamp_bounds_def)
  have hi: "in_timestamp_bounds 71358967500"
    by (simp add: in_timestamp_bounds_def)
  have r: "0 \<le> real_of_int (s - 1)" "real_of_int (s - 1) \<le> 4177372" using s by simp_all
  note sec = segment_times_seconds[OF t]
  have a: "63839696400 \<le> to_seconds st" "to_seconds st \<le> 71358967500"
    using r by (simp_all add: sec(1))
  have b: "63839696400 \<le> to_seconds en" "to_seconds en \<le> 71358967500"
    using r by (simp_all add: sec)
  show "in_timestamp_bounds (to_seconds st)"
    by (rule in_timestamp_bounds_between[OF lo hi a])
  show "in_timestamp_bounds (to_seconds en)"
    by (rule in_timestamp_bounds_between[OF lo hi b])
qed

lemma build_segment_total:
  assumes s: "1 \<le> s" "s \<le> 4177373" and n: "50 \<le> py_int (25 * 60 * fs)" and fs: "0 < fs"
    and fit: "axis_fits (clock w (ticks w)) 25"
  shows "\<exists>fn df md w'. build_segment names fs c s w = Inr (fn, df, md, w')"
proof -
  have "s \<le> 139832334" using s by simp
  from segment_times_total[OF s(1) this] obtain st en where
    t: "segment_times s = Inr (st, en)" by blast
  let ?w2 = "snd (np_randn (snd (np_randn w)))"
  have "axis_fits (clock ?w2 (ticks ?w2)) 25" using fit by (simp add: np_randn_env)
  from synth_total[OF n fs _ this] obtain df0 w3 where
    sy: "generate_synthetic_acceleration_data names 25 fs
             [4 + real_of_int s * 0.1, 12 + real_of_int s * 0.05, 18 + real_of_int s * 0.02, 25, 35]
             (0.05 + 0.01 * fst (np_randn w))
             (0.02 + 0.005 * fst (np_randn (snd (np_randn w)))) ?w2 = Inr (df0, w3)"
    by fastforce
  from segment_times_in_bounds[OF s t]
  have "date_range_span st en (length (df_index df0)) =
      Inr (np_linspace (to_seconds st) (to_seconds en) (length (df_index df0)))"
    by (simp add: date_range_span_def)
  with t sy show ?thesis
    by (simp add: build_segment_def split_def Let_def)
qed

lemma generate_segment_total:
  assumes s: "1 \<le> s" "s \<le> 4177373" and n: "50 \<le> py_int (25 * 60 * fs)" and fs: "0 < fs"
    and fit: "axis_fits (clock w (ticks w)) 25"
  shows "\<exists>w'. generate_segment names fs dir c s w = Inr w'"
proof -
  from build_segment_total[OF assms] obtain fn df md w1 where
    "build_segment names fs c s w = Inr (fn, df, md, w1)" by blast
  then show ?thesis by (simp add: generate_segment_def)
qed

lemma segment_loop_total:
  assumes n: "50 \<le> py_int (25 * 60 * fs)" and fs: "0 < fs"
  shows "(\<forall>s \<in> set segs. 1 \<le> s \<and> s \<le> 4177373) \<Longrightarrow> clock_fits w \<Longrightarrow>
         \<exists>w'. segment_loop names fs dir c segs w = Inr w'"
proof (induction segs arbitrary: w)
  case Nil
  show ?case by simp
next
  case (Cons s rest)
  have s: "1 \<le> s" "s \<le> 4177373" using Cons.prems(1) by simp_all
  have fit: "axis_fits (clock w (ticks w)) 25" using Cons.prems(2) by (simp add: clock_fits_def)
  from generate_segment_total[OF s n fs fit] obtain w1 where
    g: "generate_segment names fs dir c s w = Inr w1" by blast
  from generate_segment_Inr[OF g] have "clock w1 = clock w" by blast
  then have "clock_fits w1" using Cons.prems(2) by (simp add: clock_fits_def)
  from Cons.IH[OF _ this] Cons.prems(1) obtain w' where
    "segment_loop names fs dir c rest w1 = Inr w'" by auto
  with g show ?case by simp
qed

lemma generate_sample_dataset_total:
  assumes n: "50 \<le> py_int (25 * 60 * resolve_fs cfg)" and fs: "0 < resolve_fs cfg"
    and k: "k \<le> 4177373" and fit: "clock_fits w"
  shows "\<exists>w'. generate_sample_dataset cfg dir k c w = Inr (dir, w')"
proof -
  have "\<forall>s \<in> set [1..k]. 1 \<le> s \<and> s \<le> 4177373" using k by auto
  from segment_loop_total[OF n fs this fit] obtain w1 where
    "segment_loop (resolve_sensor_names cfg) (resolve_fs cfg) dir c [1..k] w = Inr w1" by blast
  then show ?thesis by (simp add: generate_sample_dataset_def Let_def split_def)
qed

lemma sensor_loop_keys_ordered:
  "sensor_loop i m n t bf nl ta names data w = Inr (data', w') \<Longrightarrow>
     distinct names \<Longrightarrow> set names \<inter> fst ` set data = {} \<Longrightarrow>
     map fst data' = map fst data @ names"
proof (induction names arbitrary: i data w)
  case Nil
  then show ?case by simp
next
  case (Cons sensor rest)
  from Cons.prems(1) obtain s w1 where
    rest: "sensor_loop (i + 1) m n t bf nl ta rest (dict_set data sensor s) w1 = Inr (data', w')"
    by (auto split: sum.splits)
  have notin: "sensor \<notin> fst ` set data" using Cons.prems(3) by auto
  then have k: "map fst (dict_set data sensor s) = map fst data @ [sensor]"
    by (simp add: keys_dict_set)
  then have "fst ` set (dict_set data sensor s) = insert sensor (fst ` set data)"
    by (metis Un_insert_right list.set_map list.simps(15) set_append sup_bot.right_neutral empty_set)
  then have "set rest \<inter> fst ` set (dict_set data sensor s) = {}"
    using Cons.prems(2,3) by auto
  from Cons.IH[OF rest _ this] Cons.prems(2) k show ?case by simp
qed





subsection \<open>The records of the segments\<close>

lemma segment_record_props:
  assumes "segment_record names fs c s fn df md"
  shows "\<exists>st en. segment_times s = Inr (st, en) \<and> fn = segment_filename c s st en \<and>
           md_segment_number md = s \<and>
           df_index df = np_linspace (to_seconds st) (to_seconds en) (nat (py_int (25 * 60 * fs))) \<and>
           (\<forall>v \<in> snd ` set (df_columns df).
              length v = nat (py_int (25 * 60 * fs)) \<and>
              (0 < py_int (25 * 60 * fs) \<longrightarrow> - 1.05 \<le> np_mean v \<and> np_mean v < - 0.95)) \<and>
           fst ` set (df_columns df) = set names \<and>
           (distinct names \<longrightarrow> map fst (df_columns df) = names)"
proof -
  from assms obtain w w' where b: "build_segment names fs c s w = Inr (fn, df, md, w')"
    by (auto simp: segment_record_def)
  from build_segment_Inr[OF b] show ?thesis
  proof (elim exE conjE)
  fix st en df0 w2 w3
  assume t: "segment_times s = Inr (st, en)"
    and sy: "generate_synthetic_acceleration_data names 25 fs
             [4 + real_of_int s * 0.1, 12 + real_of_int s * 0.05, 18 + real_of_int s * 0.02, 25, 35]
             (0.05 + 0.01 * fst (np_randn w))
             (0.02 + 0.005 * fst (np_randn (snd (np_randn w)))) w2 = Inr (df0, w3)"
    and dr: "date_range_span st en (length (df_index df0)) = Inr (df_index df)"
    and col: "df_columns df = df_columns df0"
    and fn: "fn = segment_filename c s st en"
    and md: "md_segment_number md = s"
  have len0: "length (df_index df0) = nat (py_int (25 * 60 * fs))"
    using synth_Inr(3)[OF sy] by simp
  have idx: "df_index df = np_linspace (to_seconds st) (to_seconds en) (nat (py_int (25 * 60 * fs)))"
    using dr len0 by (auto simp: date_range_span_def split: if_splits)
  have ord: "distinct names \<longrightarrow> map fst (df_columns df) = names"
    using sensor_loop_keys_ordered[OF synth_Inr(4)[OF sy]] col by simp
  have keys: "fst ` set (df_columns df) = set names"
    using sensor_loop_keys[OF synth_Inr(4)[OF sy]] col by simp
  have cols: "\<forall>v \<in> snd ` set (df_columns df).
              length v = nat (py_int (25 * 60 * fs)) \<and>
              (0 < py_int (25 * 60 * fs) \<longrightarrow> - 1.05 \<le> np_mean v \<and> np_mean v < - 0.95)"
    unfolding col by (rule synth_columns[OF sy])
  show ?thesis
    by (intro exI[of _ st] exI[of _ en] conjI) (fact t fn md idx cols keys ord)+
  qed
qed



subsection \<open>Time axes\<close>


lemma outlier_world_fits: "clock_fits outlier_world"
  by (simp add: clock_fits_def outlier_world_def midnight_fits)






subsection \<open>The end-to-end scenario\<close>

lemma e2e_resolved:
  "resolve_sensor_names e2e_config = [''s1'', ''s2'']" "resolve_fs e2e_config = 10"
  by (simp_all add: resolve_sensor_names_def resolve_fs_def e2e_config_def dict_get_def)

lemma segment_file_t:
  "segment_file ''t'' 1 = Some ''t_segment1_20240101090000_20240101092500.pickle''"
  "segment_file ''t'' 2 = Some ''t_segment2_20240101093000_20240101095500.pickle''"
  by code_simp+

lemma e2e_segment:
  assumes "segment_record [''s1'', ''s2''] 10 c s fn df md"
  shows "map fst (df_columns df) = [''s1'', ''s2''] \<and>
         list_all (\<lambda>samples. length samples = 15000) (map snd (df_columns df)) \<and>
         length (df_index df) = 15000 \<and> md_segment_number md = s"
proof -
  from segment_record_props[OF assms] show ?thesis
  proof (elim exE conjE)
    fix st en
    assume idx: "df_index df = np_linspace (to_seconds st) (to_seconds en) (nat (py_int (25 * 60 * 10)))"
      and col: "\<forall>v \<in> snd ` set (df_columns df). length v = nat (py_int (25 * 60 * 10)) \<and>
              (0 < py_int (25 * 60 * 10) \<longrightarrow> - 1.05 \<le> np_mean v \<and> np_mean v < - 0.95)"
      and ord: "distinct [''s1'', ''s2''] \<longrightarrow> map fst (df_columns df) = [''s1'', ''s2'']"
      and md: "md_segment_number md = s"
    have n: "nat (py_int (25 * 60 * 10)) = 15000" by (simp add: py_int_def)
    have a: "map fst (df_columns df) = [''s1'', ''s2'']" using ord by simp
    have b: "list_all (\<lambda>samples. length samples = 15000) (map snd (df_columns df))"
      using col unfolding n by (simp add: list_all_iff)
    have c: "length (df_index df) = 15000" unfolding idx n by (rule length_np_linspace)
    from a b c md show ?thesis by simp
  qed
qed

lemma end_to_end_run:
  assumes fit: "clock_fits w"
  shows "\<exists>w'. generate_sample_dataset e2e_config dir 2 ''t'' w = Inr (dir, w') \<and>
     (\<forall>d f. (d, f) \<notin> {(dir, ''t_segment1_20240101090000_20240101092500.pickle''),
                       (dir, ''t_segment2_20240101093000_20240101095500.pickle''),
                       (dir, ''dataset_summary.yaml'')} \<longrightarrow> files w' (d, f) = files w (d, f)) \<and>
     (\<exists>df md. files w' (dir, ''t_segment1_20240101090000_20240101092500.pickle'')
                 = Some (Pickle df md) \<and>
        map fst (df_columns df) = [''s1'', ''s2''] \<and>
        list_all (\<lambda>samples. length samples = 15000) (map snd (df_columns df)) \<and>
        length (df_index df) = 15000 \<and> md_segment_number md = 1) \<and>
     (\<exists>df md. files w' (dir, ''t_segment2_20240101093000_20240101095500.pickle'')
                 = Some (Pickle df md) \<and>
        map fst (df_columns df) = [''s1'', ''s2''] \<and>
        list_all (\<lambda>samples. length samples = 15000) (map snd (df_columns df)) \<and>
        length (df_index df) = 15000 \<and> md_segment_number md = 2) \<and>
     (\<exists>sm. files w' (dir, ''dataset_summary.yaml'') = Some (Yaml sm) \<and>
        di_n_segments (sm_dataset_info sm) = 2 \<and> di_segment_duration_minutes (sm_dataset_info sm) = 25)"
proof -
  have n: "50 \<le> py_int (25 * 60 * resolve_fs e2e_config)"
    by (simp add: e2e_resolved py_int_def)
  have fs: "0 < resolve_fs e2e_config" by (simp add: e2e_resolved)
  from generate_sample_dataset_total[OF n fs _ fit, of 2 dir "''t''"]
  obtain w' where r: "generate_sample_dataset e2e_config dir 2 ''t'' w = Inr (dir, w')" by auto
  note R = generate_sample_dataset_Inr[OF r, unfolded e2e_resolved]
  from R have sm: "files w' (dir, ''dataset_summary.yaml'') =
       Some (Yaml (make_summary [''s1'', ''s2''] 10 2 ''t'' (clock w (ticks w + 2 * nat 2))))"
    by blast
  from R have frame: "\<forall>d f. (d \<noteq> dir \<or> (f \<noteq> ''dataset_summary.yaml'' \<and>
                 (\<forall>s \<in> {1..2}. segment_file ''t'' s \<noteq> Some f))) \<longrightarrow>
            files w' (d, f) = files w (d, f)" by blast
  from R have segs: "\<forall>s \<in> {1..2}. \<exists>fn df md. segment_file ''t'' s = Some fn \<and>
            files w' (dir, fn) = Some (Pickle df md) \<and>
            segment_record [''s1'', ''s2''] 10 ''t'' s fn df md" by blast
  have two: "{1..2::int} = {1, 2}" by auto
  have A: "\<forall>d f. (d, f) \<notin> {(dir, ''t_segment1_20240101090000_20240101092500.pickle''),
                       (dir, ''t_segment2_20240101093000_20240101095500.pickle''),
                       (dir, ''dataset_summary.yaml'')} \<longrightarrow> files w' (d, f) = files w (d, f)"
  proof (intro allI impI)
    fix d f
    assume h: "(d, f) \<notin> {(dir, ''t_segment1_20240101090000_20240101092500.pickle''),
                       (dir, ''t_segment2_20240101093000_20240101095500.pickle''),
                       (dir, ''dataset_summary.yaml'')}"
    have "d \<noteq> dir \<or> (f \<noteq> ''dataset_summary.yaml'' \<and>
                 (\<forall>s \<in> {1..2}. segment_file ''t'' s \<noteq> Some f))"
      using h unfolding two by (auto simp: segment_file_t)
    with frame show "files w' (d, f) = files w (d, f)" by blast
  qed
  from segs obtain fn1 df1 md1 where
    s1: "segment_file ''t'' 1 = Some fn1" "files w' (dir, fn1) = Some (Pickle df1 md1)"
        "segment_record [''s1'', ''s2''] 10 ''t'' 1 fn1 df1 md1"
    unfolding two by blast
  from segs obtain fn2 df2 md2 where
    s2: "segment_file ''t'' 2 = Some fn2" "files w' (dir, fn2) = Some (Pickle df2 md2)"
        "segment_record [''s1'', ''s2''] 10 ''t'' 2 fn2 df2 md2"
    unfolding two by blast
  have f1: "fn1 = ''t_segment1_20240101090000_20240101092500.pickle''"
    using s1(1) by (simp add: segment_file_t)
  have f2: "fn2 = ''t_segment2_20240101093000_20240101095500.pickle''"
    using s2(1) by (simp add: segment_file_t)
  have B: "\<exists>df md. files w' (dir, ''t_segment1_20240101090000_20240101092500.pickle'')
                 = Some (Pickle df md) \<and>
        map fst (df_columns df) = [''s1'', ''s2''] \<and>
        list_all (\<lambda>samples. length samples = 15000) (map snd (df_columns df)) \<and>
        length (df_index df) = 15000 \<and> md_segment_number md = 1"
    using s1(2) e2e_segment[OF s1(3)] unfolding f1
    by (intro exI[of _ df1] exI[of _ md1]) simp
  have C: "\<exists>df md. files w' (dir, ''t_segment2_20240101093000_20240101095500.pickle'')
                 = Some (Pickle df md) \<and>
        map fst (df_columns df) = [''s1'', ''s2''] \<and>
        list_all (\<lambda>samples. length samples = 15000) (map snd (df_columns df)) \<and>
        length (df_index df) = 15000 \<and> md_segment_number md = 2"
    using s2(2) e2e_segment[OF s2(3)] unfolding f2
    by (intro exI[of _ df2] exI[of _ md2]) simp
  have D: "\<exists>sm. files w' (dir, ''dataset_summary.yaml'') = Some (Yaml sm) \<and>
        di_n_segments (sm_dataset_info sm) = 2 \<and> di_segment_duration_minutes (sm_dataset_info sm) = 25"
    using sm by (simp add: make_summary_def)
  show ?thesis by (intro exI[of _ w'] conjI) (fact r A B C D)+
qed

text \<open>
  Claim C4, as the code has it. The assembler has no duration parameter: every segment
  is 25 minutes long. For the sensors \<open>s1\<close> and \<open>s2\<close> at 10 Hz, two segments and the
  case label \<open>t\<close>, under a clock inside the range of pandas timestamps and whatever the
  random source, the run returns; it writes exactly three files into the output
  directory, the two segment files named by the pattern and the summary, and no other
  path changes; each segment's table has the columns \<open>s1\<close> and \<open>s2\<close> with exactly 15000
  samples each (25 minutes at 10 Hz) on an axis of 15000 timestamps; and the summary
  records 2 segments of 25 minutes.
\<close>

theorem end_to_end:
  assumes fit: "clock_fits w"
  shows "\<exists>w'. generate_sample_dataset e2e_config dir 2 ''t'' w = Inr (dir, w') \<and>
     (\<forall>d f. (d, f) \<notin> {(dir, ''t_segment1_20240101090000_20240101092500.pickle''),
                       (dir, ''t_segment2_20240101093000_20240101095500.pickle''),
                       (dir, ''dataset_summary.yaml'')} \<longrightarrow> files w' (d, f) = files w (d, f)) \<and>
     (\<exists>df md. files w' (dir, ''t_segment1_20240101090000_20240101092500.pickle'')
                 = Some (Pickle df md) \<and>
        map fst (df_columns df) = [''s1'', ''s2''] \<and>
        list_all (\<lambda>samples. length samples = 15000) (map snd (df_columns df)) \<and>
        length (df_index df) = 15000 \<and> md_segment_number md = 1) \<and>
     (\<exists>df md. files w' (dir, ''t_segment2_20240101093000_20240101095500.pickle'')
                 = Some (Pickle df md) \<and>
        map fst (df_columns df) = [''s1'', ''s2''] \<and>
        list_all (\<lambda>samples. length samples = 15000) (map snd (df_columns df)) \<and>
        length (df_index df) = 15000 \<and> md_segment_number md = 2) \<and>
     (\<exists>sm. files w' (dir, ''dataset_summary.yaml'') = Some (Yaml sm) \<and>
        di_n_segments (sm_dataset_info sm) = 2 \<and> di_segment_duration_minutes (sm_dataset_info sm) = 25)"
  using fit by (rule end_to_end_run)

theorem end_to_end_witness:
  "clock_fits outlier_world \<and>
   (\<exists>w'. generate_sample_dataset e2e_config ''out'' 2 ''t'' outlier_world = Inr (''out'', w') \<and>
     (\<forall>d f. (d, f) \<notin> {(''out'', ''t_segment1_20240101090000_20240101092500.pickle''),
                       (''out'', ''t_segment2_20240101093000_20240101095500.pickle''),
                       (''out'', ''dataset_summary.yaml'')} \<longrightarrow> files w' (d, f) = files outlier_world (d, f)) \<and>
     (\<exists>df md. files w' (''out'', ''t_segment1_20240101090000_20240101092500.pickle'')
                 = Some (Pickle df md) \<and>
        map fst (df_columns df) = [''s1'', ''s2''] \<and>
        list_all (\<lambda>samples. length samples = 15000) (map snd (df_columns df)) \<and>
        length (df_index df) = 15000 \<and> md_segment_number md = 1) \<and>
     (\<exists>df md. files w' (''out'', ''t_segment2_20240101093000_20240101095500.pickle'')
                 = Some (Pickle df md) \<and>
        map fst (df_columns df) = [''s1'', ''s2''] \<and>
        list_all (\<lambda>samples. length samples = 15000) (map snd (df_columns df)) \<and>
        length (df_index df) = 15000 \<and> md_segment_number md = 2) \<and>
     (\<exists>sm. files w' (''out'', ''dataset_summary.yaml'') = Some (Yaml sm) \<and>
        di_n_segments (sm_dataset_info sm) = 2 \<and> di_segment_duration_minutes (sm_dataset_info sm) = 25))"
  using end_to_end[OF outlier_world_fits, of "''out''"] outlier_world_fits by simp

text \<open>
  The claim as the spec words it fails: in that run each sensor of segment 1 has 15000
  samples, not 600.
\<close>

theorem end_to_end_counterexample:
  "\<exists>w' df md. generate_sample_dataset e2e_config ''out'' 2 ''t'' outlier_world = Inr (''out'', w') \<and>
     files w' (''out'', ''t_segment1_20240101090000_20240101092500.pickle'') = Some (Pickle df md) \<and>
     map fst (df_columns df) = [''s1'', ''s2''] \<and>
     list_all (\<lambda>samples. length samples = 15000 \<and> length samples \<noteq> 600)
       (map snd (df_columns df))"
proof -
  from end_to_end_run[OF outlier_world_fits, of "''out''"] obtain w' df md where
    r: "generate_sample_dataset e2e_config ''out'' 2 ''t'' outlier_world = Inr (''out'', w')"
    and f: "files w' (''out'', ''t_segment1_20240101090000_20240101092500.pickle'') = Some (Pickle df md)"
    and k: "map fst (df_columns df) = [''s1'', ''s2'']"
    and l: "list_all (\<lambda>samples. length samples = 15000) (map snd (df_columns df))"
    by (elim exE conjE)
  from l have "list_all (\<lambda>samples. length samples = 15000 \<and> length samples \<noteq> 600)
       (map snd (df_columns df))" by (simp add: list_all_iff)
  with r f k show ?thesis by (intro exI[of _ w'] exI[of _ df] exI[of _ md]) simp
qed


end
